theory Spec2Isabelle
  imports Main
begin

section \<open>JavaScript values and containers used by both servers\<close>

text \<open>
  A value produced by \<^verbatim>\<open>JSON.parse\<close>. A number is carried as the text that
  \<^verbatim>\<open>String(n)\<close> gives for it (\<open>JNum ''30000''\<close>), which identifies the number
  (\<open>0\<close> and \<open>-0\<close> are both \<open>''0''\<close>, as equal as \<^verbatim>\<open>Map\<close> keys are).
  A JavaScript \<^verbatim>\<open>undefined\<close> is \<open>None\<close> of \<open>json option\<close>.
  An object is the list of its own properties; \<open>get_prop\<close> reads the first entry of a name.
\<close>

datatype json = JNull | JBool bool | JNum string | JStr string
  | JArr "json list" | JObj "(string \<times> json) list"

text \<open>\<^verbatim>\<open>String(n)\<close> for an integer \<open>n\<close> below \<open>10^21\<close> in absolute value, which the
  readings of the clock and the sizes of the maps are: its decimal digits.\<close>

function digits :: "int \<Rightarrow> string" where
  "digits i = (if i < 10 then [''0123456789'' ! nat i]
               else digits (i div 10) @ [''0123456789'' ! nat (i mod 10)])"
  by pat_completeness auto
termination
  by (relation "measure nat") auto

declare digits.simps [simp del]

definition int_string :: "int \<Rightarrow> string" where
  "int_string i = (if i < 0 then CHR ''-'' # digits (- i) else digits i)"

text \<open>\<^verbatim>\<open>x.k\<close> for the property names the servers read (\<^verbatim>\<open>type\<close>, \<^verbatim>\<open>payload\<close>,
  \<^verbatim>\<open>name\<close>, \<^verbatim>\<open>id\<close>, ...): an own property of an object, \<^verbatim>\<open>undefined\<close> on an array,
  string, number or boolean. On \<^verbatim>\<open>null\<close> the access throws; the callers below test for
  \<open>JNull\<close> before they use \<open>get_prop\<close>.\<close>

fun get_prop :: "json \<Rightarrow> string \<Rightarrow> json option" where
  "get_prop (JObj fs) k = map_of fs k"
| "get_prop _ k = None"

text \<open>\<^verbatim>\<open>x?.k\<close>: \<^verbatim>\<open>undefined\<close> when \<open>x\<close> is \<^verbatim>\<open>undefined\<close> or \<^verbatim>\<open>null\<close>.\<close>

fun opt_chain :: "json option \<Rightarrow> string \<Rightarrow> json option" where
  "opt_chain None k = None"
| "opt_chain (Some JNull) k = None"
| "opt_chain (Some v) k = get_prop v k"

fun truthy :: "json \<Rightarrow> bool" where
  "truthy JNull = False"
| "truthy (JBool b) = b"
| "truthy (JNum s) = (s \<noteq> ''0'')"
| "truthy (JStr s) = (s \<noteq> [])"
| "truthy (JArr xs) = True"
| "truthy (JObj fs) = True"

text \<open>\<^verbatim>\<open>a || b\<close> with \<open>b\<close> a defined value.\<close>

fun js_or :: "json option \<Rightarrow> json \<Rightarrow> json" where
  "js_or None b = b"
| "js_or (Some a) b = (if truthy a then a else b)"

fun join :: "string \<Rightarrow> string list \<Rightarrow> string" where
  "join sep [] = []"
| "join sep [x] = x"
| "join sep (x # y # ys) = x @ sep @ join sep (y # ys)"

text \<open>
  \<^verbatim>\<open>String(v)\<close>, the conversion a template literal applies to each of its values; \<open>None\<close> is
  the \<^verbatim>\<open>TypeError\<close> it throws. An object is converted by its \<^verbatim>\<open>toString\<close>: the inherited one
  gives \<^verbatim>\<open>[object Object]\<close>, and an own property \<^verbatim>\<open>toString\<close>, which in a parsed value is
  never a function, leaves no way to convert it. An array joins the conversions of its
  elements, \<^verbatim>\<open>null\<close> giving the empty string, and throws when one of them does.
\<close>

fun js_String :: "json \<Rightarrow> string option" where
  "js_String JNull = Some ''null''"
| "js_String (JBool b) = Some (if b then ''true'' else ''false'')"
| "js_String (JNum s) = Some s"
| "js_String (JStr s) = Some s"
| "js_String (JArr xs) =
     map_option (join '','') (those (map (\<lambda>x. if x = JNull then Some [] else js_String x) xs))"
| "js_String (JObj fs) = (if map_of fs ''toString'' = None then Some ''[object Object]'' else None)"

fun template :: "json option \<Rightarrow> string option" where
  "template None = Some ''undefined''"
| "template (Some v) = js_String v"

text \<open>The own enumerable properties that \<^verbatim>\<open>{...x}\<close> copies.\<close>

fun spread :: "json \<Rightarrow> (string \<times> json) list" where
  "spread (JObj fs) = fs"
| "spread (JArr xs) = zip (map (\<lambda>i. int_string (int i)) [0..<length xs]) xs"
| "spread (JStr s) = zip (map (\<lambda>i. int_string (int i)) [0..<length s]) (map (\<lambda>c. JStr [c]) s)"
| "spread _ = []"

text \<open>
  A JavaScript \<^verbatim>\<open>Map\<close> (and the properties of an object literal) as an association list
  in insertion order: \<^verbatim>\<open>set\<close> replaces the value of a key that is present, in place, and
  appends a new key at the end.
\<close>

fun Map_set :: "'k \<Rightarrow> 'v \<Rightarrow> ('k \<times> 'v) list \<Rightarrow> ('k \<times> 'v) list" where
  "Map_set k v [] = [(k, v)]"
| "Map_set k v (e # es) = (if fst e = k then (k, v) # es else e # Map_set k v es)"

definition Map_get :: "'k \<Rightarrow> ('k \<times> 'v) list \<Rightarrow> 'v option" where
  "Map_get k m = map_of m k"

definition Map_has :: "'k \<Rightarrow> ('k \<times> 'v) list \<Rightarrow> bool" where
  "Map_has k m = (map_of m k \<noteq> None)"

definition Map_delete :: "'k \<Rightarrow> ('k \<times> 'v) list \<Rightarrow> ('k \<times> 'v) list" where
  "Map_delete k m = filter (\<lambda>e. fst e \<noteq> k) m"

definition Map_values :: "('k \<times> 'v) list \<Rightarrow> 'v list" where
  "Map_values m = map snd m"

definition Map_keys :: "('k \<times> 'v) list \<Rightarrow> 'k list" where
  "Map_keys m = map fst m"

text \<open>
  A WebSocket handle is a number; its \<^verbatim>\<open>readyState\<close> lives in a store that the server's
  state carries, so that two registry entries may hold the same handle. \<^verbatim>\<open>ws.close()\<close>
  starts the closing handshake; the \<^verbatim>\<open>close\<close> event comes later, as an event of its own.
  What the servers emit is the list of their \<^verbatim>\<open>ws.send\<close> calls, in order.
\<close>

datatype ready_state = CONNECTING | OPEN | CLOSING | CLOSED

type_synonym sock = nat

type_synonym sends = "(sock \<times> json) list"

fun ws_close :: "ready_state \<Rightarrow> ready_state" where
  "ws_close CLOSED = CLOSED"
| "ws_close _ = CLOSING"

section \<open>The signaling server of \<^verbatim>\<open>server.js\<close>\<close>

record device =
  dev_id :: string
  dev_name :: json
  dev_type :: json
  dev_capabilities :: json
  registeredAt :: string

record peer =
  ws :: sock
  connectedAt :: string
  peerId :: string
  device :: "device option"

text \<open>The module-level maps \<^verbatim>\<open>connectedPeers\<close> and \<^verbatim>\<open>deviceInfo\<close>, and the handles' states.
  Times are the ISO strings that \<^verbatim>\<open>new Date().toISOString()\<close> returns; every handler takes
  one reading of the clock as its argument \<open>now\<close> and uses it for all the times it writes.\<close>

record server_state =
  connectedPeers :: "(string \<times> peer) list"
  deviceInfo :: "(string \<times> device) list"
  readyState :: "sock \<Rightarrow> ready_state"

definition init_state :: server_state where
  "init_state = \<lparr>connectedPeers = [], deviceInfo = [], readyState = (\<lambda>_. CLOSED)\<rparr>"

definition device_json :: "device \<Rightarrow> json" where
  "device_json d = JObj [(''id'', JStr (dev_id d)), (''name'', dev_name d),
     (''type'', dev_type d), (''capabilities'', dev_capabilities d),
     (''registeredAt'', JStr (registeredAt d))]"

definition error_msg :: "string \<Rightarrow> json" where
  "error_msg e = JObj [(''type'', JStr ''error''), (''error'', JStr e)]"

definition peer_update_msg :: "server_state \<Rightarrow> string \<Rightarrow> json" where
  "peer_update_msg st now = JObj [(''type'', JStr ''peer-update''),
     (''devices'', JArr (map device_json (Map_values (deviceInfo st)))),
     (''totalConnected'', JNum (int_string (int (length (connectedPeers st))))),
     (''timestamp'', JStr now)]"

definition broadcastPeerUpdate :: "server_state \<Rightarrow> string \<Rightarrow> sends" where
  "broadcastPeerUpdate st now =
     map (\<lambda>p. (ws p, peer_update_msg st now))
       (filter (\<lambda>p. readyState st (ws p) = OPEN) (Map_values (connectedPeers st)))"

definition handleDeviceRegistration ::
  "string \<Rightarrow> json option \<Rightarrow> string \<Rightarrow> server_state \<Rightarrow> server_state \<times> sends" where
  "handleDeviceRegistration pid deviceData now st =
    (let dev = \<lparr>dev_id = pid,
                dev_name = js_or (opt_chain deviceData ''name'') (JStr (''Device-'' @ take 8 pid)),
                dev_type = js_or (opt_chain deviceData ''type'') (JStr ''unknown''),
                dev_capabilities = js_or (opt_chain deviceData ''capabilities'') (JArr []),
                registeredAt = now\<rparr>;
         st1 = st\<lparr>deviceInfo := Map_set pid dev (deviceInfo st)\<rparr>;
         st2 = (case Map_get pid (connectedPeers st1) of
                  Some p \<Rightarrow> st1\<lparr>connectedPeers :=
                              Map_set pid (p\<lparr>device := Some dev\<rparr>) (connectedPeers st1)\<rparr>
                | None \<Rightarrow> st1);
         out1 = broadcastPeerUpdate st2 now;
         out2 = (case Map_get pid (connectedPeers st2) of
                   Some pc \<Rightarrow>
                     if readyState st2 (ws pc) = OPEN
                     then [(ws pc, JObj [(''type'', JStr ''device-registered''),
                                         (''device'', device_json dev)])]
                     else []
                 | None \<Rightarrow> [])
     in (st2, out1 @ out2))"

definition discoveredDevices :: "server_state \<Rightarrow> string \<Rightarrow> device list" where
  "discoveredDevices st pid = filter (\<lambda>d. dev_id d \<noteq> pid) (Map_values (deviceInfo st))"

definition handleDiscoveryRequest ::
  "string \<Rightarrow> string \<Rightarrow> server_state \<Rightarrow> server_state \<times> sends" where
  "handleDiscoveryRequest pid now st =
    (st, case Map_get pid (connectedPeers st) of
           Some pc \<Rightarrow>
             if readyState st (ws pc) = OPEN
             then [(ws pc, JObj [(''type'', JStr ''discovery-response''),
                                 (''devices'', JArr (map device_json (discoveredDevices st pid))),
                                 (''discoveredAt'', JStr now)])]
             else []
         | None \<Rightarrow> [])"

text \<open>\<^verbatim>\<open>connectedPeers.get(x)\<close> for a value \<open>x\<close> taken from a message: the keys are strings,
  so only a string finds an entry.\<close>

fun peers_get :: "json option \<Rightarrow> (string \<times> peer) list \<Rightarrow> peer option" where
  "peers_get (Some (JStr s)) m = Map_get s m"
| "peers_get _ m = None"

definition forwarded :: "string \<Rightarrow> json \<Rightarrow> string \<Rightarrow> (string \<times> json) list" where
  "forwarded fromPeerId data now =
     Map_set ''forwardedAt'' (JStr now) (Map_set ''fromPeerId'' (JStr fromPeerId) (spread data))"

text \<open>An exception leaves a handler before it returns; the only one the handlers raise is the
  \<^verbatim>\<open>TypeError\<close> of a property read on \<^verbatim>\<open>null\<close> or \<^verbatim>\<open>undefined\<close> or of a conversion to a
  string. \<^verbatim>\<open>JSON.parse\<close> raises a \<^verbatim>\<open>SyntaxError\<close>.\<close>

datatype exn = TypeError | SyntaxError

definition forwardSignalingMessage ::
  "string \<Rightarrow> json option \<Rightarrow> json \<Rightarrow> string \<Rightarrow> server_state
     \<Rightarrow> exn + server_state \<times> sends" where
  "forwardSignalingMessage fromPeerId targetPeerId data now st =
    (case peers_get targetPeerId (connectedPeers st) of
       Some targetPeer \<Rightarrow>
         if readyState st (ws targetPeer) \<noteq> OPEN
         then (case Map_get fromPeerId (connectedPeers st) of
                 Some sourcePeer \<Rightarrow>
                   if readyState st (ws sourcePeer) = OPEN
                   then (case template targetPeerId of
                           None \<Rightarrow> Inl TypeError
                         | Some t \<Rightarrow>
                             Inr (st, [(ws sourcePeer, error_msg
                                    (''Target peer '' @ [CHR 0x27] @ t @ [CHR 0x27]
                                       @ '' is not available''))]))
                   else Inr (st, [])
               | None \<Rightarrow> Inr (st, []))
         else Inr (st, [(ws targetPeer, JObj (forwarded fromPeerId data now))])
     | None \<Rightarrow>
         (case Map_get fromPeerId (connectedPeers st) of
            Some sourcePeer \<Rightarrow>
              if readyState st (ws sourcePeer) = OPEN
              then (case template targetPeerId of
                      None \<Rightarrow> Inl TypeError
                    | Some t \<Rightarrow>
                        Inr (st, [(ws sourcePeer, error_msg
                               (''Target peer '' @ [CHR 0x27] @ t @ [CHR 0x27]
                                  @ '' is not available''))]))
              else Inr (st, [])
          | None \<Rightarrow> Inr (st, [])))"

definition peer_json :: "peer \<Rightarrow> json" where
  "peer_json p = JObj [(''peerId'', JStr (peerId p)),
     (''device'', case device p of None \<Rightarrow> JNull | Some d \<Rightarrow> device_json d),
     (''connectedAt'', JStr (connectedAt p))]"

definition sendPeerList :: "string \<Rightarrow> string \<Rightarrow> server_state \<Rightarrow> server_state \<times> sends" where
  "sendPeerList pid now st =
    (case Map_get pid (connectedPeers st) of
       None \<Rightarrow> (st, [])
     | Some pc \<Rightarrow>
         if readyState st (ws pc) \<noteq> OPEN then (st, [])
         else (let peers = map peer_json
                             (filter (\<lambda>p. peerId p \<noteq> pid) (Map_values (connectedPeers st)))
               in (st, [(ws pc, JObj [(''type'', JStr ''peer-list''), (''peers'', JArr peers),
                                      (''totalPeers'', JNum (int_string (int (length peers)))),
                                      (''timestamp'', JStr now)])])))"

text \<open>The destructuring \<^verbatim>\<open>const { type, targetPeerId, payload } = data\<close> throws a
  \<^verbatim>\<open>TypeError\<close> on \<^verbatim>\<open>null\<close>. The log line that follows converts \<^verbatim>\<open>targetPeerId\<close> and
  \<^verbatim>\<open>type\<close> to strings and throws when one of them cannot be converted. Both happen before
  anything is written or sent. The \<^verbatim>\<open>switch\<close> compares with \<^verbatim>\<open>===\<close>, so a case matches only
  the string itself.\<close>

definition handleSignalingMessage ::
  "string \<Rightarrow> json \<Rightarrow> string \<Rightarrow> server_state \<Rightarrow> exn + server_state \<times> sends" where
  "handleSignalingMessage pid data now st =
    (if data = JNull then Inl TypeError
     else let type = get_prop data ''type'';
              targetPeerId = get_prop data ''targetPeerId'';
              payload = get_prop data ''payload''
          in if template targetPeerId = None \<or> template type = None then Inl TypeError
             else if type = Some (JStr ''register-device'')
               then Inr (handleDeviceRegistration pid payload now st)
             else if type = Some (JStr ''discovery-request'')
               then Inr (handleDiscoveryRequest pid now st)
             else if type = Some (JStr ''offer'') \<or> type = Some (JStr ''answer'')
                     \<or> type = Some (JStr ''ice-candidate'')
               then forwardSignalingMessage pid targetPeerId data now st
             else if type = Some (JStr ''peer-list-request'')
               then Inr (sendPeerList pid now st)
             else Inr (st, []))"

text \<open>The result of \<^verbatim>\<open>JSON.parse\<close> on the raw frame: the parsed value, or the
  \<^verbatim>\<open>SyntaxError\<close> it throws.\<close>

datatype parse_result = Unparsable | Parsed json

text \<open>The \<^verbatim>\<open>message\<close> callback of a connection; \<open>sock\<close> and \<open>pid\<close> are the \<^verbatim>\<open>ws\<close> and
  \<^verbatim>\<open>peerId\<close> of its closure. Its \<^verbatim>\<open>catch\<close> sends the error on \<open>sock\<close> without a test of the
  handle's state.\<close>

definition on_message ::
  "sock \<Rightarrow> string \<Rightarrow> parse_result \<Rightarrow> string \<Rightarrow> server_state \<Rightarrow> server_state \<times> sends" where
  "on_message sock pid raw now st =
    (case raw of
       Unparsable \<Rightarrow> (st, [(sock, error_msg ''Invalid message format'')])
     | Parsed data \<Rightarrow>
         (case handleSignalingMessage pid data now st of
            Inl e \<Rightarrow> (st, [(sock, error_msg ''Invalid message format'')])
          | Inr r \<Rightarrow> r))"

text \<open>\<^verbatim>\<open>generateDeviceId()\<close>: \<open>ms\<close> is the reading \<^verbatim>\<open>Date.now()\<close> and \<open>rnd\<close> the text
  \<^verbatim>\<open>Math.random().toString(36)\<close>, of which \<^verbatim>\<open>substr(2, 9)\<close> keeps nine characters after the
  first two. Two calls in the same millisecond whose random texts agree on those characters
  return the same id.\<close>

definition generateDeviceId :: "int \<Rightarrow> string \<Rightarrow> string" where
  "generateDeviceId ms rnd = ''device-'' @ int_string ms @ ''-'' @ take 9 (drop 2 rnd)"

text \<open>The \<^verbatim>\<open>connection\<close> callback; \<open>pid\<close> is what \<^verbatim>\<open>generateDeviceId()\<close> returned and
  \<open>addr\<close> what \<^verbatim>\<open>getLocalIPAddress()\<close> returned.\<close>

definition on_connection ::
  "sock \<Rightarrow> string \<Rightarrow> string \<Rightarrow> string \<Rightarrow> server_state \<Rightarrow> server_state \<times> sends" where
  "on_connection sock pid addr now st =
    (let st1 = st\<lparr>connectedPeers :=
                   Map_set pid \<lparr>ws = sock, connectedAt = now, peerId = pid, device = None\<rparr>
                     (connectedPeers st)\<rparr>
     in (st1, (sock, JObj [(''type'', JStr ''welcome''), (''peerId'', JStr pid),
                           (''serverTime'', JStr now), (''serverAddress'', JStr addr),
                           (''port'', JNum ''3000'')])
              # broadcastPeerUpdate st1 now))"

definition on_close :: "string \<Rightarrow> string \<Rightarrow> server_state \<Rightarrow> server_state \<times> sends" where
  "on_close pid now st =
    (let st1 = st\<lparr>connectedPeers := Map_delete pid (connectedPeers st),
                  deviceInfo := Map_delete pid (deviceInfo st)\<rparr>
     in (st1, broadcastPeerUpdate st1 now))"

text \<open>The HTTP routes that write the maps. \<open>req_body\<close> is \<^verbatim>\<open>req.body\<close>, which the JSON body
  parser makes an object or an array; \<open>newId\<close> is what \<^verbatim>\<open>generateDeviceId()\<close> returned.\<close>

record http_response =
  status :: nat
  body :: json

definition post_devices ::
  "json \<Rightarrow> string \<Rightarrow> string \<Rightarrow> server_state \<Rightarrow> server_state \<times> sends \<times> http_response" where
  "post_devices req_body newId now st =
    (case (get_prop req_body ''name'', get_prop req_body ''type'') of
       (Some name, Some type) \<Rightarrow>
         if \<not> truthy name \<or> \<not> truthy type
         then (st, [], \<lparr>status = 400,
                 body = JObj [(''error'', JStr ''Device name and type are required'')]\<rparr>)
         else (let dev = \<lparr>dev_id = newId, dev_name = name, dev_type = type,
                          dev_capabilities = js_or (get_prop req_body ''capabilities'') (JArr []),
                          registeredAt = now\<rparr>;
                   st1 = st\<lparr>deviceInfo := Map_set newId dev (deviceInfo st)\<rparr>
               in (st1, broadcastPeerUpdate st1 now,
                   \<lparr>status = 201,
                    body = JObj [(''message'', JStr ''Device registered''),
                                 (''device'', device_json dev), (''timestamp'', JStr now)]\<rparr>))
     | _ \<Rightarrow> (st, [], \<lparr>status = 400,
                body = JObj [(''error'', JStr ''Device name and type are required'')]\<rparr>))"

definition delete_device ::
  "string \<Rightarrow> string \<Rightarrow> server_state \<Rightarrow> server_state \<times> sends \<times> http_response" where
  "delete_device deviceId now st =
    (if \<not> Map_has deviceId (deviceInfo st)
     then (st, [], \<lparr>status = 404,
             body = JObj [(''error'', JStr ''Device not found''), (''deviceId'', JStr deviceId)]\<rparr>)
     else (let st1 = st\<lparr>deviceInfo := Map_delete deviceId (deviceInfo st)\<rparr>;
               st2 = (case Map_get deviceId (connectedPeers st1) of
                        Some p \<Rightarrow>
                          if readyState st1 (ws p) = OPEN
                          then st1\<lparr>readyState :=
                                 (readyState st1)(ws p := ws_close (readyState st1 (ws p)))\<rparr>
                          else st1
                      | None \<Rightarrow> st1)
           in (st2, broadcastPeerUpdate st2 now,
               \<lparr>status = 200,
                body = JObj [(''message'', JStr ''Device deleted''), (''deviceId'', JStr deviceId),
                             (''timestamp'', JStr now)]\<rparr>)))"

text \<open>
  The events of a run. \<open>Library sock rs\<close> is the WebSocket library changing the state of a
  handle: the server's handlers only read that state, except for the \<^verbatim>\<open>close()\<close> they call.
  A connection's \<^verbatim>\<open>message\<close> and \<^verbatim>\<open>close\<close> events carry the handle and the id of its
  closure; \<^verbatim>\<open>connection\<close> and the HTTP registration carry the id that
  \<^verbatim>\<open>generateDeviceId()\<close> returned.
\<close>

datatype event =
    Library sock ready_state
  | Connection sock string string string
  | Message sock string parse_result string
  | Close sock string string
  | HttpPostDevices json string string
  | HttpDeleteDevice string string

fun step :: "server_state \<Rightarrow> event \<Rightarrow> server_state \<times> sends" where
  "step st (Library sock rs) = (st\<lparr>readyState := (readyState st)(sock := rs)\<rparr>, [])"
| "step st (Connection sock pid addr now) = on_connection sock pid addr now st"
| "step st (Message sock pid raw now) = on_message sock pid raw now st"
| "step st (Close sock pid now) = on_close pid now st"
| "step st (HttpPostDevices req_body newId now) =
     (case post_devices req_body newId now st of (st', out, r) \<Rightarrow> (st', out))"
| "step st (HttpDeleteDevice deviceId now) =
     (case delete_device deviceId now st of (st', out, r) \<Rightarrow> (st', out))"

fun run :: "server_state \<Rightarrow> event list \<Rightarrow> server_state" where
  "run st [] = st"
| "run st (e # es) = run (fst (step st e)) es"

fun trace_sends :: "server_state \<Rightarrow> event list \<Rightarrow> sends" where
  "trace_sends st [] = []"
| "trace_sends st (e # es) = snd (step st e) @ trace_sends (fst (step st e)) es"



text \<open>The id an event generates or names: the id of the connection, the id generated for a
  device registered over HTTP, the id in the path of a delete.\<close>

fun event_id :: "event \<Rightarrow> string option" where
  "event_id (Library sock rs) = None"
| "event_id (Connection sock pid addr now) = Some pid"
| "event_id (Message sock pid raw now) = Some pid"
| "event_id (Close sock pid now) = Some pid"
| "event_id (HttpPostDevices req_body newId now) = Some newId"
| "event_id (HttpDeleteDevice deviceId now) = Some deviceId"



text \<open>A fan-out (\<^verbatim>\<open>peer-update\<close>) and a \<^verbatim>\<open>discovery-response\<close> carry a list \<^verbatim>\<open>devices\<close>;
  \<open>lists_device\<close> says that the list of a message has the device, \<open>sends_list\<close> that every
  message of these two types among some sends has it. \<open>holds_device\<close>: the device is stored
  under the id \<open>d\<close>, and the registry has no entry of that id.\<close>

definition lists_device :: "device \<Rightarrow> json \<Rightarrow> bool" where
  "lists_device dev m =
     (case get_prop m ''devices'' of Some (JArr ds) \<Rightarrow> device_json dev \<in> set ds | _ \<Rightarrow> False)"

definition is_snapshot :: "json \<Rightarrow> bool" where
  "is_snapshot m = (get_prop m ''type'' = Some (JStr ''peer-update'')
                    \<or> get_prop m ''type'' = Some (JStr ''discovery-response''))"

definition holds_device :: "server_state \<Rightarrow> string \<Rightarrow> device \<Rightarrow> bool" where
  "holds_device st d dev = (Map_get d (deviceInfo st) = Some dev \<and> dev_id dev = d
                            \<and> Map_get d (connectedPeers st) = None)"

definition sends_list :: "device \<Rightarrow> sends \<Rightarrow> bool" where
  "sends_list dev out = (\<forall>x \<in> set out. is_snapshot (snd x) \<longrightarrow> lists_device dev (snd x))"

section \<open>The server with heartbeats and LAN discovery\<close>

text \<open>
  The keys of \<^verbatim>\<open>connectedDevices\<close> and \<^verbatim>\<open>discoveryClients\<close> are values taken from messages.
  \<^verbatim>\<open>Map\<close> compares strings, numbers, booleans and \<^verbatim>\<open>null\<close> by value and arrays and objects
  by identity; each array or object that becomes a key gets the next number of the counter
  \<open>allocated\<close>, and carries its content, which the log lines convert to a string.
\<close>

datatype jskey = KUndefined | KPrim json | KRef nat json

fun is_ref :: "json option \<Rightarrow> bool" where
  "is_ref (Some (JArr xs)) = True"
| "is_ref (Some (JObj fs)) = True"
| "is_ref _ = False"

fun to_key :: "json option \<Rightarrow> nat \<Rightarrow> jskey" where
  "to_key None n = KUndefined"
| "to_key (Some (JArr xs)) n = KRef n (JArr xs)"
| "to_key (Some (JObj fs)) n = KRef n (JObj fs)"
| "to_key (Some v) n = KPrim v"

text \<open>The conversion of a key by a template literal, and its truth value in a condition.\<close>

fun key_String :: "jskey \<Rightarrow> string option" where
  "key_String KUndefined = Some ''undefined''"
| "key_String (KPrim v) = js_String v"
| "key_String (KRef n v) = js_String v"

fun key_truthy :: "jskey \<Rightarrow> bool" where
  "key_truthy KUndefined = False"
| "key_truthy (KPrim v) = truthy v"
| "key_truthy (KRef n v) = True"

text \<open>An entry of \<^verbatim>\<open>connectedDevices\<close>. Times are the numbers \<^verbatim>\<open>Date.now()\<close> returns; as
  in the first server, a handler takes one reading \<open>now\<close> of the clock for all the times it
  writes.\<close>

record device2 =
  d_id :: json
  d_name :: json
  d_type :: json
  d_capabilities :: json
  d_ws :: sock
  d_connectedAt :: int
  lastHeartbeat :: int

text \<open>An entry of \<^verbatim>\<open>discoveryClients\<close>, the object
  \<^verbatim>\<open>{...data.device, lastSeen: Date.now(), address: rinfo.address}\<close>: the announced properties
  other than the two the server writes, and those two.\<close>

record discovery_record =
  announced :: "(string \<times> json) list"
  lastSeen :: int
  address :: string

record rinfo =
  rinfo_address :: string
  rinfo_port :: int

text \<open>\<open>clients\<close> is \<^verbatim>\<open>wss.clients\<close>, \<open>deviceId_of\<close> the property \<^verbatim>\<open>ws.deviceId\<close> of each handle
  (\<^verbatim>\<open>undefined\<close> until a registration sets it), \<open>sig_peers\<close> and \<open>offerCache\<close> the maps
  \<^verbatim>\<open>peers\<close> and \<^verbatim>\<open>offerCache\<close> of the \<^verbatim>\<open>WebRTCSignaling\<close> object, each cached offer with its
  timestamp, and \<open>selfInfo\<close> the beacon's own \<^verbatim>\<open>deviceInfo\<close>.\<close>

record server_state2 =
  connectedDevices :: "(jskey \<times> device2) list"
  discoveryClients :: "(jskey \<times> discovery_record) list"
  sig_peers :: "(jskey \<times> json) list"
  offerCache :: "(jskey \<times> json option \<times> int) list"
  clients :: "sock list"
  readyState2 :: "sock \<Rightarrow> ready_state"
  deviceId_of :: "sock \<Rightarrow> jskey"
  allocated :: nat
  selfInfo :: json

definition DEVICE_TIMEOUT :: int where
  "DEVICE_TIMEOUT = 30000"

definition init_state2 :: "json \<Rightarrow> server_state2" where
  "init_state2 info = \<lparr>connectedDevices = [], discoveryClients = [], sig_peers = [],
     offerCache = [], clients = [], readyState2 = (\<lambda>_. CLOSED),
     deviceId_of = (\<lambda>_. KUndefined), allocated = 0, selfInfo = info\<rparr>"

text \<open>
  A callback that throws after it has written to the maps leaves what it has written. The
  result of such a callback is what it has made of the state, and what it has sent, at its
  return or at its throw.
\<close>

datatype 'a outcome = Returned 'a | Threw 'a

fun state_of :: "'a outcome \<Rightarrow> 'a" where
  "state_of (Returned s) = s"
| "state_of (Threw s) = s"

fun threw :: "'a outcome \<Rightarrow> bool" where
  "threw (Returned s) = False"
| "threw (Threw s) = True"

definition device_list_entry :: "device2 \<Rightarrow> json" where
  "device_list_entry d = JObj [(''id'', d_id d), (''name'', d_name d), (''type'', d_type d),
     (''capabilities'', d_capabilities d), (''connectedAt'', JNum (int_string (d_connectedAt d)))]"

definition device_list_msg :: "server_state2 \<Rightarrow> int \<Rightarrow> json" where
  "device_list_msg st now = JObj [(''type'', JStr ''device-list''),
     (''devices'', JArr (map device_list_entry (Map_values (connectedDevices st)))),
     (''timestamp'', JNum (int_string now))]"

definition broadcastDeviceList :: "server_state2 \<Rightarrow> int \<Rightarrow> sends" where
  "broadcastDeviceList st now =
     map (\<lambda>c. (c, device_list_msg st now)) (filter (\<lambda>c. readyState2 st c = OPEN) (clients st))"

text \<open>
  \<^verbatim>\<open>handleDeviceRegistration\<close> of this server. The entry is written to the registry first; the
  log line that follows converts \<^verbatim>\<open>deviceId\<close> and the entry's \<^verbatim>\<open>name\<close> to strings, and when
  it throws, \<^verbatim>\<open>ws.deviceId\<close> is not set and nothing is sent by the handler.
\<close>

definition handleDeviceRegistration2 ::
  "sock \<Rightarrow> json \<Rightarrow> int \<Rightarrow> server_state2 \<Rightarrow> (server_state2 \<times> sends) outcome" where
  "handleDeviceRegistration2 sock message now st =
    (let deviceId = js_or (get_prop message ''deviceId'') (JStr (''device-'' @ int_string now));
         key = to_key (Some deviceId) (allocated st);
         info = \<lparr>d_id = deviceId,
                 d_name = js_or (get_prop message ''name'') deviceId,
                 d_type = js_or (get_prop message ''deviceType'') (JStr ''client''),
                 d_capabilities = js_or (get_prop message ''capabilities'') (JArr []),
                 d_ws = sock, d_connectedAt = now, lastHeartbeat = now\<rparr>;
         st1 = st\<lparr>connectedDevices := Map_set key info (connectedDevices st),
                  allocated := (if is_ref (Some deviceId) then Suc (allocated st) else allocated st)\<rparr>
     in if js_String deviceId = None \<or> js_String (d_name info) = None then Threw (st1, [])
        else (let st2 = st1\<lparr>deviceId_of := (deviceId_of st1)(sock := key)\<rparr>
              in Returned (st2, (sock, JObj [(''type'', JStr ''registration-confirmed''),
                                             (''deviceId'', deviceId),
                                             (''timestamp'', JNum (int_string now))])
                                # broadcastDeviceList st2 now)))"

text \<open>The \<^verbatim>\<open>message\<close> callback of a connection on a frame that parsed to \<open>message\<close> with the
  \<^verbatim>\<open>type\<close> \<^verbatim>\<open>register\<close>: the \<^verbatim>\<open>catch\<close> of the callback answers a throw of the handler with an
  error on the same handle.\<close>

definition on_register :: "sock \<Rightarrow> json \<Rightarrow> int \<Rightarrow> server_state2 \<Rightarrow> server_state2 \<times> sends" where
  "on_register sock message now st =
    (case handleDeviceRegistration2 sock message now st of
       Returned r \<Rightarrow> r
     | Threw r \<Rightarrow> (fst r, snd r @ [(sock, JObj [(''type'', JStr ''error''),
                                                (''message'', JStr ''Invalid message format'')])]))"

definition handleHeartbeat :: "sock \<Rightarrow> int \<Rightarrow> server_state2 \<Rightarrow> server_state2 \<times> sends" where
  "handleHeartbeat sock now st =
    (let deviceId = deviceId_of st sock
     in case Map_get deviceId (connectedDevices st) of
          Some d \<Rightarrow>
            (st\<lparr>connectedDevices :=
                  Map_set deviceId (d\<lparr>lastHeartbeat := now\<rparr>) (connectedDevices st)\<rparr>,
             [(sock, JObj [(''type'', JStr ''heartbeat-ack''),
                           (''timestamp'', JNum (int_string now))])])
        | None \<Rightarrow> (st, []))"

text \<open>
  \<^verbatim>\<open>cleanupDevice\<close>, the \<^verbatim>\<open>close\<close> callback of a connection, with \<^verbatim>\<open>cleanupPeer\<close>. Nothing
  catches what they throw. A fan-out is the list of sends of one call of
  \<^verbatim>\<open>broadcastDeviceList\<close>; the result carries the fan-outs made. The log line of
  \<^verbatim>\<open>cleanupDevice\<close> converts the value that the log line of \<^verbatim>\<open>cleanupPeer\<close> has converted
  before it.
\<close>

definition cleanupPeer :: "jskey \<Rightarrow> server_state2 \<Rightarrow> server_state2 outcome" where
  "cleanupPeer deviceId st =
    (let st1 = st\<lparr>sig_peers := Map_delete deviceId (sig_peers st),
                  offerCache := Map_delete deviceId (offerCache st)\<rparr>
     in if key_String deviceId = None then Threw st1 else Returned st1)"

definition cleanupDevice ::
  "sock \<Rightarrow> int \<Rightarrow> server_state2 \<Rightarrow> (server_state2 \<times> sends list) outcome" where
  "cleanupDevice sock now st =
    (if key_truthy (deviceId_of st sock)
     then (let deviceId = deviceId_of st sock;
               st1 = st\<lparr>connectedDevices := Map_delete deviceId (connectedDevices st)\<rparr>
           in case cleanupPeer deviceId st1 of
                Threw st2 \<Rightarrow> Threw (st2, [])
              | Returned st2 \<Rightarrow>
                  if key_String deviceId = None then Threw (st2, [])
                  else Returned (st2, [broadcastDeviceList st2 now]))
     else Returned (st, []))"

text \<open>What the WebSocket library does to a handle before it calls the \<^verbatim>\<open>close\<close> callback: the
  handle is closed and no longer among \<^verbatim>\<open>wss.clients\<close>.\<close>

definition closed_by_library :: "sock \<Rightarrow> server_state2 \<Rightarrow> server_state2" where
  "closed_by_library sock st =
     st\<lparr>readyState2 := (readyState2 st)(sock := CLOSED),
        clients := filter (\<lambda>c. c \<noteq> sock) (clients st)\<rparr>"

text \<open>
  The stale-device sweep, the callback of the first \<^verbatim>\<open>setInterval\<close>. For each stale key in
  turn it calls \<^verbatim>\<open>close\<close> on the entry's handle, deletes the entry and logs the key; a key
  that cannot be converted to a string makes the log line throw, which ends the callback:
  the keys after it are not visited and there is no fan-out. Nothing catches the exception.
  The result carries the fan-outs made.
\<close>

definition staleDevices :: "int \<Rightarrow> server_state2 \<Rightarrow> jskey list" where
  "staleDevices now st =
     map fst (filter (\<lambda>e. now - lastHeartbeat (snd e) > DEVICE_TIMEOUT) (connectedDevices st))"

definition evict :: "server_state2 \<Rightarrow> jskey \<Rightarrow> server_state2 outcome" where
  "evict st deviceId =
    (let st1 = (case Map_get deviceId (connectedDevices st) of
                  Some d \<Rightarrow> st\<lparr>readyState2 :=
                              (readyState2 st)(d_ws d := ws_close (readyState2 st (d_ws d)))\<rparr>
                | None \<Rightarrow> st);
         st2 = st1\<lparr>connectedDevices := Map_delete deviceId (connectedDevices st1)\<rparr>
     in if key_String deviceId = None then Threw st2 else Returned st2)"

fun evict_all :: "server_state2 \<Rightarrow> jskey list \<Rightarrow> server_state2 outcome" where
  "evict_all st [] = Returned st"
| "evict_all st (k # ks) =
     (case evict st k of Returned st1 \<Rightarrow> evict_all st1 ks | Threw st1 \<Rightarrow> Threw st1)"

definition sweep :: "int \<Rightarrow> server_state2 \<Rightarrow> (server_state2 \<times> sends list) outcome" where
  "sweep now st =
    (let stale = staleDevices now st
     in case evict_all st stale of
          Threw st1 \<Rightarrow> Threw (st1, [])
        | Returned st1 \<Rightarrow>
            Returned (st1, if length stale > 0 then [broadcastDeviceList st1 now] else []))"

text \<open>The sweep of the discovery store, the callback of the second \<^verbatim>\<open>setInterval\<close>: for each
  stale key in turn it deletes the record and logs the key, and the log line ends the
  callback by a throw when the key cannot be converted.\<close>

definition staleClients :: "int \<Rightarrow> server_state2 \<Rightarrow> jskey list" where
  "staleClients now st =
     map fst (filter (\<lambda>e. now - lastSeen (snd e) > DEVICE_TIMEOUT) (discoveryClients st))"

fun prune_all ::
  "(jskey \<times> discovery_record) list \<Rightarrow> jskey list \<Rightarrow> (jskey \<times> discovery_record) list outcome" where
  "prune_all m [] = Returned m"
| "prune_all m (k # ks) =
     (if key_String k = None then Threw (Map_delete k m) else prune_all (Map_delete k m) ks)"

definition sweep_discovery :: "int \<Rightarrow> server_state2 \<Rightarrow> server_state2 outcome" where
  "sweep_discovery now st =
    (case prune_all (discoveryClients st) (staleClients now st) of
       Returned m \<Rightarrow> Returned (st\<lparr>discoveryClients := m\<rparr>)
     | Threw m \<Rightarrow> Threw (st\<lparr>discoveryClients := m\<rparr>))"

text \<open>
  \<^verbatim>\<open>DeviceDiscovery.handleDiscoveryMessage\<close>. It returns the new state and the datagrams
  sent, each with its destination address. Reading \<^verbatim>\<open>data.type\<close> of \<^verbatim>\<open>null\<close>, or
  \<^verbatim>\<open>data.device.name\<close> when \<^verbatim>\<open>data.device\<close> is \<^verbatim>\<open>undefined\<close> or \<^verbatim>\<open>null\<close>, throws, and so
  does the log line of an announcement when the announced \<^verbatim>\<open>name\<close> cannot be converted to a
  string; all of this happens before the store is written.
\<close>

definition handleDiscoveryMessage ::
  "json \<Rightarrow> rinfo \<Rightarrow> int \<Rightarrow> server_state2 \<Rightarrow> exn + server_state2 \<times> (string \<times> json) list" where
  "handleDiscoveryMessage data ri now st =
    (if data = JNull then Inl TypeError
     else if get_prop data ''type'' = Some (JStr ''device-discovery'')
       then Inr (st, [(rinfo_address ri,
                       JObj [(''type'', JStr ''server-response''), (''device'', selfInfo st)])])
     else if get_prop data ''type'' = Some (JStr ''device-announce'')
       then (case get_prop data ''device'' of
               None \<Rightarrow> Inl TypeError
             | Some JNull \<Rightarrow> Inl TypeError
             | Some dv \<Rightarrow>
                 if template (get_prop dv ''name'') = None then Inl TypeError
                 else Inr (st\<lparr>discoveryClients :=
                            Map_set (to_key (get_prop dv ''id'') (allocated st))
                              \<lparr>announced = filter (\<lambda>f. fst f \<noteq> ''lastSeen'' \<and> fst f \<noteq> ''address'')
                                             (spread dv),
                               lastSeen = now, address = rinfo_address ri\<rparr>
                              (discoveryClients st),
                          allocated := (if is_ref (get_prop dv ''id'') then Suc (allocated st)
                                        else allocated st)\<rparr>, []))
     else Inr (st, []))"

text \<open>The \<^verbatim>\<open>message\<close> callback of the datagram socket: a datagram that does not parse, or
  whose handling throws, is logged and dropped.\<close>

definition on_datagram ::
  "parse_result \<Rightarrow> rinfo \<Rightarrow> int \<Rightarrow> server_state2 \<Rightarrow> server_state2 \<times> (string \<times> json) list" where
  "on_datagram raw ri now st =
    (case raw of
       Unparsable \<Rightarrow> (st, [])
     | Parsed data \<Rightarrow>
         (case handleDiscoveryMessage data ri now st of Inl e \<Rightarrow> (st, []) | Inr r \<Rightarrow> r))"

text \<open>Heartbeats of one connection at the times \<open>ts\<close>, one after the other, and runs of the
  discovery sweep at the times \<open>ts\<close>, each run ending by its return or by its throw.\<close>

definition heartbeats :: "sock \<Rightarrow> int list \<Rightarrow> server_state2 \<Rightarrow> server_state2" where
  "heartbeats sock ts st = foldl (\<lambda>s t. fst (handleHeartbeat sock t s)) st ts"

definition sweeps_discovery :: "int list \<Rightarrow> server_state2 \<Rightarrow> server_state2" where
  "sweeps_discovery ts st = foldl (\<lambda>s t. state_of (sweep_discovery t s)) st ts"

section \<open>Concrete runs\<close>

text \<open>The scenario of the specification: A connects and gets the id \<open>p1\<close>, registers
  \<^verbatim>\<open>{name: "Laptop", type: "client"}\<close>, then B connects and gets \<open>p2\<close>. The library has
  opened each handle before its \<^verbatim>\<open>connection\<close> event.\<close>

definition scenario :: "event list" where
  "scenario = [Library 1 OPEN, Connection 1 ''p1'' ''10.0.0.1'' ''t0'',
     Message 1 ''p1'' (Parsed (JObj [(''type'', JStr ''register-device''),
        (''payload'', JObj [(''name'', JStr ''Laptop''), (''type'', JStr ''client'')])])) ''t1'',
     Library 2 OPEN, Connection 2 ''p2'' ''10.0.0.1'' ''t2'']"

definition two_peers :: server_state where
  "two_peers = run init_state scenario"

definition p1_entry :: peer where
  "p1_entry = \<lparr>ws = 1, connectedAt = ''t0'', peerId = ''p1'',
     device = Some \<lparr>dev_id = ''p1'', dev_name = JStr ''Laptop'', dev_type = JStr ''client'',
                    dev_capabilities = JArr [], registeredAt = ''t1''\<rparr>\<rparr>"

definition offer_to :: "string \<Rightarrow> (string \<times> json) list" where
  "offer_to t = [(''type'', JStr ''offer''), (''targetPeerId'', JStr t),
     (''payload'', JObj [(''sdp'', JStr ''v=0'')])]"

text \<open>An offer whose \<^verbatim>\<open>targetPeerId\<close> is the object \<^verbatim>\<open>{"toString": 1}\<close>.\<close>

definition odd_offer :: "(string \<times> json) list" where
  "odd_offer = [(''type'', JStr ''offer''), (''targetPeerId'', JObj [(''toString'', JNum ''1'')]),
     (''payload'', JObj [(''sdp'', JStr ''v=0'')])]"

text \<open>After the scenario, the device \<open>p1\<close> is deleted over HTTP: the server calls
  \<^verbatim>\<open>close()\<close> on the handle of \<open>p1\<close>, whose registry entry stays until its \<^verbatim>\<open>close\<close> event.\<close>

definition closing_p1 :: server_state where
  "closing_p1 = run init_state (scenario @ [HttpDeleteDevice ''p1'' ''t3''])"

definition not_available :: "string \<Rightarrow> string" where
  "not_available t = ''Target peer '' @ [CHR 0x27] @ t @ [CHR 0x27] @ '' is not available''"

definition register_laptop :: json where
  "register_laptop = JObj [(''type'', JStr ''register-device''),
     (''payload'', JObj [(''name'', JStr ''Laptop''), (''type'', JStr ''client'')])]"




text \<open>Two connections in the same millisecond whose random texts agree on the nine
  characters that \<^verbatim>\<open>generateDeviceId\<close> keeps, and the disconnect of the first.\<close>

definition clash_id :: string where
  "clash_id = ''device-1700000000000-4fzyo82mv''"


text \<open>A device registered over HTTP after the scenario, and what happens later.\<close>

definition tv_body :: json where
  "tv_body = JObj [(''name'', JStr ''TV''), (''type'', JStr ''display'')]"

definition tv_device :: device where
  "tv_device = \<lparr>dev_id = ''tv'', dev_name = JStr ''TV'', dev_type = JStr ''display'',
     dev_capabilities = JArr [], registeredAt = ''t3''\<rparr>"

definition after_tv :: "event list" where
  "after_tv = [Message 2 ''p2'' (Parsed (JObj [(''type'', JStr ''discovery-request'')])) ''t4'',
     Library 1 CLOSED, Close 1 ''p1'' ''t5'',
     Library 3 OPEN, Connection 3 ''p3'' ''10.0.0.1'' ''t6'',
     Library 2 CLOSED, Close 2 ''p2'' ''t7'']"

text \<open>A device registered over HTTP in the millisecond of a connection, with random texts
  that agree on the nine characters kept, and the disconnect of that connection.\<close>

definition tv_clash :: "event list" where
  "tv_clash = [HttpPostDevices tv_body (generateDeviceId 1700000000000 ''0.4fzyo82mvyr'') ''t0'',
     Library 1 OPEN,
     Connection 1 (generateDeviceId 1700000000000 ''0.4fzyo82mvk3'') ''10.0.0.1'' ''t0'',
     Library 1 CLOSED,
     Close 1 (generateDeviceId 1700000000000 ''0.4fzyo82mvk3'') ''t1'']"

text \<open>The second server with two open handles, and the states after the handle 1 registered
  as \<open>laptop\<close>, after the handle 2 registered as \<open>phone\<close>, and after \<open>phone\<close> sent heartbeats
  up to the time 30000 while \<open>laptop\<close> sent none.\<close>

definition heartbeat_msg :: json where
  "heartbeat_msg = JObj [(''type'', JStr ''heartbeat'')]"

definition two_clients :: server_state2 where
  "two_clients = (init_state2 JNull)\<lparr>clients := [1, 2],
     readyState2 := (\<lambda>_. CLOSED)(1 := OPEN, 2 := OPEN)\<rparr>"

definition register_as :: "json \<Rightarrow> json" where
  "register_as i = JObj [(''type'', JStr ''register''), (''deviceId'', i)]"

definition laptop_entry :: "sock \<Rightarrow> int \<Rightarrow> int \<Rightarrow> jskey \<times> device2" where
  "laptop_entry sock t hb = (KPrim (JStr ''laptop''),
     \<lparr>d_id = JStr ''laptop'', d_name = JStr ''laptop'', d_type = JStr ''client'',
      d_capabilities = JArr [], d_ws = sock, d_connectedAt = t, lastHeartbeat = hb\<rparr>)"

definition phone_entry :: "int \<Rightarrow> jskey \<times> device2" where
  "phone_entry hb = (KPrim (JStr ''phone''),
     \<lparr>d_id = JStr ''phone'', d_name = JStr ''phone'', d_type = JStr ''client'',
      d_capabilities = JArr [], d_ws = 2, d_connectedAt = 1000, lastHeartbeat = hb\<rparr>)"

definition laptop_registered :: server_state2 where
  "laptop_registered = two_clients\<lparr>connectedDevices := [laptop_entry 1 1000 1000],
     deviceId_of := (\<lambda>_. KUndefined)(1 := KPrim (JStr ''laptop''))\<rparr>"

definition both_registered :: server_state2 where
  "both_registered = two_clients\<lparr>connectedDevices := [laptop_entry 1 1000 1000, phone_entry 1000],
     deviceId_of := (\<lambda>_. KUndefined)(1 := KPrim (JStr ''laptop''), 2 := KPrim (JStr ''phone''))\<rparr>"

definition phone_beating :: server_state2 where
  "phone_beating = both_registered\<lparr>connectedDevices := [laptop_entry 1 1000 1000, phone_entry 30000]\<rparr>"

text \<open>The state after the sweep at the time 40000 evicted \<open>laptop\<close> and called \<^verbatim>\<open>close\<close> on
  its handle, and the state in which the library has closed that handle.\<close>

definition laptop_evicted :: server_state2 where
  "laptop_evicted = phone_beating\<lparr>connectedDevices := [phone_entry 30000],
     readyState2 := (\<lambda>_. CLOSED)(1 := CLOSING, 2 := OPEN)\<rparr>"

definition laptop_closed :: server_state2 where
  "laptop_closed = closed_by_library 1 laptop_evicted"

text \<open>A registration whose \<^verbatim>\<open>deviceId\<close> is the object \<^verbatim>\<open>{"toString": 1}\<close>, and the state in
  which the handle 1 sent it and the handle 2 then registered as \<open>laptop\<close>, both at the time
  1000.\<close>

definition odd_id :: json where
  "odd_id = JObj [(''toString'', JNum ''1'')]"

definition odd_entry :: "jskey \<times> device2" where
  "odd_entry = (KRef 0 odd_id,
     \<lparr>d_id = odd_id, d_name = odd_id, d_type = JStr ''client'',
      d_capabilities = JArr [], d_ws = 1, d_connectedAt = 1000, lastHeartbeat = 1000\<rparr>)"

definition odd_registered :: server_state2 where
  "odd_registered = two_clients\<lparr>connectedDevices := [odd_entry, laptop_entry 2 1000 1000],
     deviceId_of := (\<lambda>_. KUndefined)(2 := KPrim (JStr ''laptop'')), allocated := 1\<rparr>"

text \<open>Two announcements of the id \<open>tablet\<close> from two source addresses, with a run of the
  discovery sweep between them.\<close>

definition announce_as :: "json \<Rightarrow> json \<Rightarrow> json" where
  "announce_as i n = JObj [(''type'', JStr ''device-announce''),
     (''device'', JObj [(''id'', i), (''name'', n), (''address'', JStr ''0.0.0.0'')])]"

definition announce :: "string \<Rightarrow> json" where
  "announce i = announce_as (JStr i) (JStr ''Tablet'')"

definition from_a :: rinfo where
  "from_a = \<lparr>rinfo_address = ''192.168.1.20'', rinfo_port = 5353\<rparr>"

definition from_b :: rinfo where
  "from_b = \<lparr>rinfo_address = ''192.168.1.77'', rinfo_port = 5353\<rparr>"

definition announced_once :: server_state2 where
  "announced_once = sweeps_discovery [30000] (fst (on_datagram (Parsed (announce ''tablet'')) from_a 1000 two_clients))"

definition announced_twice :: server_state2 where
  "announced_twice = fst (on_datagram (Parsed (announce ''tablet'')) from_b 5000 announced_once)"

section \<open>Facts about the maps\<close>

lemma map_fst_Map_set_same:
  "map_of m k = Some d \<Longrightarrow> map fst (Map_set k v m) = map fst m"
  by (induction m) (auto split: if_splits)

lemma count_Map_set:
  "distinct (map fst m) \<Longrightarrow> length (filter (\<lambda>e. fst e = k) (Map_set k v m)) = 1"
proof (induction m)
  case Nil
  then show ?case by simp
next
  case (Cons e es)
  show ?case
  proof (cases "fst e = k")
    case True
    with Cons.prems have "filter (\<lambda>e. fst e = k) es = []"
      by (fastforce simp: filter_empty_conv image_iff)
    with True show ?thesis by simp
  next
    case False
    with Cons show ?thesis by simp
  qed
qed

lemma map_of_Map_set: "map_of (Map_set k v m) k' = (if k' = k then Some v else map_of m k')"
  by (induction m) auto

lemma keys_Map_set: "set (map fst (Map_set k v m)) = insert k (set (map fst m))"
  by (induction m) auto

lemma Map_set_fresh: "k \<notin> fst ` set m \<Longrightarrow> Map_set k v m = m @ [(k, v)]"
  by (induction m) auto

lemma keys_Map_set_present: "k \<in> fst ` set m \<Longrightarrow> map fst (Map_set k v m) = map fst m"
  by (induction m) auto

lemma distinct_Map_set: "distinct (map fst m) \<Longrightarrow> distinct (map fst (Map_set k v m))"
  by (cases "k \<in> fst ` set m") (simp_all add: keys_Map_set_present Map_set_fresh)




lemma distinct_Map_delete: "distinct (map f m) \<Longrightarrow> distinct (map f (Map_delete k m))"
  by (simp add: Map_delete_def distinct_map_filter)

lemma map_of_Map_delete: "map_of (Map_delete k m) k' = (if k' = k then None else map_of m k')"
  by (induction m) (auto simp: Map_delete_def)

lemma deletes_filter:
  "foldl (\<lambda>m k. Map_delete k m) m ks = filter (\<lambda>e. fst e \<notin> set ks) m"
  by (induction ks arbitrary: m) (auto simp: Map_delete_def intro: filter_cong)

lemma map_of_filter_keys:
  "k \<notin> S \<Longrightarrow> map_of (filter (\<lambda>e. fst e \<notin> S) m) k = map_of m k"
  by (induction m) auto

lemma distinct_deletes:
  "distinct (map fst m) \<Longrightarrow> distinct (map fst (foldl (\<lambda>m k. Map_delete k m) m ks))"
  by (induction ks arbitrary: m) (simp_all add: distinct_Map_delete)

section \<open>Forwarding\<close>

lemma forwarded_other:
  "k \<noteq> ''fromPeerId'' \<Longrightarrow> k \<noteq> ''forwardedAt'' \<Longrightarrow>
   map_of (forwarded a (JObj fs) now) k = map_of fs k"
  by (simp add: forwarded_def map_of_Map_set)

lemma forwarded_added:
  "map_of (forwarded a data now) ''fromPeerId'' = Some (JStr a)"
  "map_of (forwarded a data now) ''forwardedAt'' = Some (JStr now)"
  by (simp_all add: forwarded_def map_of_Map_set)

lemma forwarded_keys:
  "set (map fst (forwarded a (JObj fs) now)) = set (map fst fs) \<union> {''fromPeerId'', ''forwardedAt''}"
  unfolding forwarded_def spread.simps keys_Map_set by blast

text \<open>
  C1. A message of type \<^verbatim>\<open>offer\<close>, \<^verbatim>\<open>answer\<close> or \<^verbatim>\<open>ice-candidate\<close> from \<open>pid\<close> whose
  \<^verbatim>\<open>targetPeerId\<close> is the key of a registry entry with an open handle leaves the state as it
  is and makes exactly one send, to the target's handle. The object sent has the fields of the
  original message and the two fields \<^verbatim>\<open>fromPeerId\<close> and \<^verbatim>\<open>forwardedAt\<close>, and no other; every
  field of the original other than these two has its original value, \<^verbatim>\<open>fromPeerId\<close> is the
  sender's id and \<^verbatim>\<open>forwardedAt\<close> is the time of forwarding.
\<close>

theorem forward_preserves_content:
  assumes "map_of fs ''type'' = Some (JStr ty)"
    and "ty \<in> {''offer'', ''answer'', ''ice-candidate''}"
    and "map_of fs ''targetPeerId'' = Some (JStr t)"
    and "Map_get t (connectedPeers st) = Some tp"
    and "readyState st (ws tp) = OPEN"
  shows "\<exists>out. handleSignalingMessage pid (JObj fs) now st = Inr (st, [(ws tp, JObj out)])
           \<and> set (map fst out) = set (map fst fs) \<union> {''fromPeerId'', ''forwardedAt''}
           \<and> map_of out ''fromPeerId'' = Some (JStr pid)
           \<and> map_of out ''forwardedAt'' = Some (JStr now)
           \<and> (\<forall>k. k \<noteq> ''fromPeerId'' \<and> k \<noteq> ''forwardedAt'' \<longrightarrow> map_of out k = map_of fs k)"
proof -
  have "handleSignalingMessage pid (JObj fs) now st
          = Inr (st, [(ws tp, JObj (forwarded pid (JObj fs) now))])"
    using assms by (auto simp: handleSignalingMessage_def forwardSignalingMessage_def)
  then show ?thesis
    using forwarded_other [of _ pid fs now] forwarded_added [of pid "JObj fs" now]
      forwarded_keys [of pid fs now]
    by blast
qed

theorem forward_preserves_content_witness:
  "Map_get ''p1'' (connectedPeers two_peers) = Some p1_entry
   \<and> readyState two_peers (ws p1_entry) = OPEN
   \<and> (\<exists>out. handleSignalingMessage ''p2'' (JObj (offer_to ''p1'')) ''t3'' two_peers
                = Inr (two_peers, [(1, JObj out)])
          \<and> map_of out ''type'' = Some (JStr ''offer'')
          \<and> map_of out ''payload'' = Some (JObj [(''sdp'', JStr ''v=0'')])
          \<and> map_of out ''fromPeerId'' = Some (JStr ''p2''))"
proof -
  have h1: "map_of (offer_to ''p1'') ''type'' = Some (JStr ''offer'')"
    by (simp add: offer_to_def)
  have h2: "''offer'' \<in> {''offer'', ''answer'', ''ice-candidate''}"
    by simp
  have h3: "map_of (offer_to ''p1'') ''targetPeerId'' = Some (JStr ''p1'')"
    by (simp add: offer_to_def)
  have h4: "Map_get ''p1'' (connectedPeers two_peers) = Some p1_entry"
    by code_simp
  have h5: "readyState two_peers (ws p1_entry) = OPEN"
    by code_simp
  have w: "ws p1_entry = 1"
    by (simp add: p1_entry_def)
  have p: "map_of (offer_to ''p1'') ''payload'' = Some (JObj [(''sdp'', JStr ''v=0'')])"
    by (simp add: offer_to_def)
  from forward_preserves_content [OF h1 h2 h3 h4 h5, of "''p2''" "''t3''"]
  obtain out where
    o: "handleSignalingMessage ''p2'' (JObj (offer_to ''p1'')) ''t3'' two_peers
          = Inr (two_peers, [(ws p1_entry, JObj out)])"
      "map_of out ''fromPeerId'' = Some (JStr ''p2'')"
      "\<forall>k. k \<noteq> ''fromPeerId'' \<and> k \<noteq> ''forwardedAt'' \<longrightarrow> map_of out k = map_of (offer_to ''p1'') k"
    by blast
  from o(3) have "map_of out ''type'' = map_of (offer_to ''p1'') ''type''"
    and "map_of out ''payload'' = map_of (offer_to ''p1'') ''payload''"
    by simp_all
  with o h1 p h4 h5 w show ?thesis
    by auto
qed

text \<open>
  C2, as stated, fails: the error reply is itself guarded by the sender's handle being open.
  After the HTTP delete of \<open>p1\<close> the handle of \<open>p1\<close> is closing while its entry is still in the
  registry; an offer from \<open>p1\<close> to the absent target \<open>ghost\<close> then produces no send at all.
\<close>

theorem forward_unavailable_counterexample:
  "Map_get ''p1'' (connectedPeers closing_p1) = Some p1_entry
   \<and> readyState closing_p1 (ws p1_entry) = CLOSING
   \<and> peers_get (Some (JStr ''ghost'')) (connectedPeers closing_p1) = None
   \<and> snd (on_message 1 ''p1'' (Parsed (JObj (offer_to ''ghost''))) ''t4'' closing_p1) = []"
  by code_simp

text \<open>
  C2, amended. A frame on the connection \<open>pid\<close> with the handle \<open>sock\<close> that parses to a
  message of type \<^verbatim>\<open>offer\<close>, \<^verbatim>\<open>answer\<close> or \<^verbatim>\<open>ice-candidate\<close> whose \<^verbatim>\<open>targetPeerId\<close> finds no
  registry entry, or an entry whose handle is not open, changes no state and delivers nothing
  to any target. When the \<^verbatim>\<open>targetPeerId\<close> cannot be converted to a string (an object with a
  property \<^verbatim>\<open>toString\<close>, or an array that holds one), the log line of the dispatcher throws
  and the only send is the reply \<^verbatim>\<open>Invalid message format\<close> on \<open>sock\<close>, whatever the state of
  that handle. Otherwise, if the sender's own registry entry exists and its handle is open,
  the only send is one error reply on that handle naming the target as converted, and if not,
  nothing is sent.
\<close>

theorem forward_unavailable:
  assumes "map_of fs ''type'' = Some (JStr ty)"
    and "ty \<in> {''offer'', ''answer'', ''ice-candidate''}"
    and "\<forall>tp. peers_get (map_of fs ''targetPeerId'') (connectedPeers st) = Some tp
              \<longrightarrow> readyState st (ws tp) \<noteq> OPEN"
  shows "\<exists>out. on_message sock pid (Parsed (JObj fs)) now st = (st, out)
           \<and> (template (map_of fs ''targetPeerId'') = None
                 \<longrightarrow> out = [(sock, error_msg ''Invalid message format'')])
           \<and> (\<forall>t sp. template (map_of fs ''targetPeerId'') = Some t
                   \<and> Map_get pid (connectedPeers st) = Some sp \<and> readyState st (ws sp) = OPEN
                 \<longrightarrow> out = [(ws sp, error_msg (''Target peer '' @ [CHR 0x27] @ t @ [CHR 0x27]
                                                  @ '' is not available''))])
           \<and> (template (map_of fs ''targetPeerId'') \<noteq> None
                 \<and> (\<forall>sp. Map_get pid (connectedPeers st) = Some sp \<longrightarrow> readyState st (ws sp) \<noteq> OPEN)
                 \<longrightarrow> out = [])"
proof (cases "template (map_of fs ''targetPeerId'')")
  case None
  then show ?thesis
    by (simp add: on_message_def handleSignalingMessage_def)
next
  case (Some t)
  with assms show ?thesis
    by (auto simp: on_message_def handleSignalingMessage_def forwardSignalingMessage_def
        split: option.splits)
qed

theorem forward_unavailable_witness:
  "on_message 2 ''p2'' (Parsed (JObj (offer_to ''ghost''))) ''t3'' two_peers
     = (two_peers, [(2, JObj [(''type'', JStr ''error''),
                              (''error'', JStr (not_available ''ghost''))])])
   \<and> on_message 2 ''p2'' (Parsed (JObj odd_offer)) ''t3'' two_peers
     = (two_peers, [(2, JObj [(''type'', JStr ''error''),
                              (''error'', JStr ''Invalid message format'')])])"
proof -
  have h1: "map_of (offer_to ''ghost'') ''type'' = Some (JStr ''offer'')"
    and g1: "map_of odd_offer ''type'' = Some (JStr ''offer'')"
    by (simp_all add: offer_to_def odd_offer_def)
  have h2: "''offer'' \<in> {''offer'', ''answer'', ''ice-candidate''}"
    by simp
  have t: "map_of (offer_to ''ghost'') ''targetPeerId'' = Some (JStr ''ghost'')"
    and u: "map_of odd_offer ''targetPeerId'' = Some (JObj [(''toString'', JNum ''1'')])"
    by (simp_all add: offer_to_def odd_offer_def)
  have "peers_get (Some (JStr ''ghost'')) (connectedPeers two_peers) = None"
    by code_simp
  with t have h3: "\<forall>tp. peers_get (map_of (offer_to ''ghost'') ''targetPeerId'')
                          (connectedPeers two_peers) = Some tp
                        \<longrightarrow> readyState two_peers (ws tp) \<noteq> OPEN"
    by simp
  from u have g3: "\<forall>tp. peers_get (map_of odd_offer ''targetPeerId'')
                          (connectedPeers two_peers) = Some tp
                        \<longrightarrow> readyState two_peers (ws tp) \<noteq> OPEN"
    by simp
  have s: "Map_get ''p2'' (connectedPeers two_peers)
             = Some \<lparr>ws = 2, connectedAt = ''t2'', peerId = ''p2'', device = None\<rparr>"
    by code_simp
  have r: "readyState two_peers 2 = OPEN"
    by code_simp
  from forward_unavailable [OF h1 h2 h3, of 2 "''p2''" "''t3''"] s r t
  have a: "on_message 2 ''p2'' (Parsed (JObj (offer_to ''ghost''))) ''t3'' two_peers
     = (two_peers, [(2, JObj [(''type'', JStr ''error''),
                              (''error'', JStr (not_available ''ghost''))])])"
    by (auto simp: error_msg_def not_available_def)
  from forward_unavailable [OF g1 h2 g3, of 2 "''p2''" "''t3''"] u
  have b: "on_message 2 ''p2'' (Parsed (JObj odd_offer)) ''t3'' two_peers
     = (two_peers, [(2, JObj [(''type'', JStr ''error''),
                              (''error'', JStr ''Invalid message format'')])])"
    by (auto simp: error_msg_def)
  from a b show ?thesis
    by simp
qed

section \<open>Malformed messages\<close>

text \<open>
  C8, as stated, fails: a frame that parses to something other than a message of the
  expected structure gets no reply at all. The number \<^verbatim>\<open>5\<close>, the empty object, an object
  whose \<^verbatim>\<open>type\<close> is a number, a string and the empty array all fall to the default branch of
  the dispatcher, which only logs.
\<close>

theorem malformed_message_counterexample:
  "on_message 2 ''p2'' (Parsed (JNum ''5'')) ''t3'' two_peers = (two_peers, [])
   \<and> on_message 2 ''p2'' (Parsed (JObj [])) ''t3'' two_peers = (two_peers, [])
   \<and> on_message 2 ''p2'' (Parsed (JObj [(''type'', JNum ''5'')])) ''t3'' two_peers = (two_peers, [])
   \<and> on_message 2 ''p2'' (Parsed (JStr ''offer'')) ''t3'' two_peers = (two_peers, [])
   \<and> on_message 2 ''p2'' (Parsed (JArr [])) ''t3'' two_peers = (two_peers, [])"
  by (simp add: on_message_def handleSignalingMessage_def)

text \<open>
  C8, amended. A frame gets the error reply when \<^verbatim>\<open>JSON.parse\<close> rejects it, when it parses
  to \<^verbatim>\<open>null\<close> (on which the destructuring throws), or when its \<^verbatim>\<open>targetPeerId\<close> or its
  \<^verbatim>\<open>type\<close> cannot be converted to a string (on which the log line throws): then there is
  exactly one send, the error reply on the handle of the connection the frame came from,
  whatever the state of that handle; nothing is sent on any other handle, and the state is
  the same afterwards: both maps, and the state of every handle, the sender's included. Any
  other frame whose \<^verbatim>\<open>type\<close> is not one of the six that the dispatcher knows is only logged:
  nothing is sent and the state is the same afterwards.
\<close>

theorem malformed_message_reply:
  "(raw = Unparsable \<or> raw = Parsed JNull
      \<or> (\<exists>data. raw = Parsed data
            \<and> (template (get_prop data ''targetPeerId'') = None
                 \<or> template (get_prop data ''type'') = None))
     \<longrightarrow> on_message sock pid raw now st
           = (st, [(sock, JObj [(''type'', JStr ''error''),
                                (''error'', JStr ''Invalid message format'')])]))
   \<and> (\<forall>data. raw = Parsed data \<and> data \<noteq> JNull
         \<and> template (get_prop data ''targetPeerId'') \<noteq> None
         \<and> template (get_prop data ''type'') \<noteq> None
         \<and> get_prop data ''type''
             \<notin> Some ` JStr ` {''register-device'', ''discovery-request'', ''offer'', ''answer'',
                               ''ice-candidate'', ''peer-list-request''}
       \<longrightarrow> on_message sock pid raw now st = (st, []))"
  by (auto simp: on_message_def handleSignalingMessage_def error_msg_def)

theorem malformed_message_reply_witness:
  "on_message 2 ''p2'' Unparsable ''t3'' two_peers
     = (two_peers, [(2, JObj [(''type'', JStr ''error''),
                              (''error'', JStr ''Invalid message format'')])])
   \<and> on_message 2 ''p2'' (Parsed (JObj [(''type'', JObj [(''toString'', JNum ''1'')])])) ''t3'' two_peers
     = (two_peers, [(2, JObj [(''type'', JStr ''error''),
                              (''error'', JStr ''Invalid message format'')])])
   \<and> on_message 2 ''p2'' (Parsed (JObj [(''type'', JStr ''heartbeat'')])) ''t3'' two_peers
     = (two_peers, [])
   \<and> readyState two_peers 2 = OPEN"
proof -
  have r: "readyState two_peers 2 = OPEN"
    by code_simp
  from malformed_message_reply [of Unparsable 2 "''p2''" "''t3''" two_peers]
  have a: "on_message 2 ''p2'' Unparsable ''t3'' two_peers
     = (two_peers, [(2, JObj [(''type'', JStr ''error''),
                              (''error'', JStr ''Invalid message format'')])])"
    by simp
  from malformed_message_reply
    [of "Parsed (JObj [(''type'', JObj [(''toString'', JNum ''1'')])])" 2 "''p2''" "''t3''" two_peers]
  have b: "on_message 2 ''p2'' (Parsed (JObj [(''type'', JObj [(''toString'', JNum ''1'')])])) ''t3'' two_peers
     = (two_peers, [(2, JObj [(''type'', JStr ''error''),
                              (''error'', JStr ''Invalid message format'')])])"
    by simp
  from malformed_message_reply
    [of "Parsed (JObj [(''type'', JStr ''heartbeat'')])" 2 "''p2''" "''t3''" two_peers]
  have c: "on_message 2 ''p2'' (Parsed (JObj [(''type'', JStr ''heartbeat'')])) ''t3'' two_peers
     = (two_peers, [])"
    by simp
  from a b c r show ?thesis
    by simp
qed

section \<open>Registration of a device\<close>

text \<open>
  C6, as stated, fails: \<^verbatim>\<open>handleDeviceRegistration\<close> has no check of the issuing id and no
  error. A \<^verbatim>\<open>register-device\<close> message handled for the id \<open>ghost\<close>, which is not in the
  registry, coming on the handle 3, stores a device under \<open>ghost\<close>; the only sends are the
  fan-out to the two open participants, and nothing, no error either, goes to the handle 3.
\<close>

theorem registration_unknown_counterexample:
  "Map_get ''ghost'' (connectedPeers two_peers) = None
   \<and> Map_get ''ghost'' (deviceInfo (fst (on_message 3 ''ghost'' (Parsed register_laptop) ''t3'' two_peers)))
       = Some \<lparr>dev_id = ''ghost'', dev_name = JStr ''Laptop'', dev_type = JStr ''client'',
               dev_capabilities = JArr [], registeredAt = ''t3''\<rparr>
   \<and> map fst (snd (on_message 3 ''ghost'' (Parsed register_laptop) ''t3'' two_peers)) = [1, 2]
   \<and> get_prop (snd (hd (snd (on_message 3 ''ghost'' (Parsed register_laptop) ''t3'' two_peers))))
         ''type'' = Some (JStr ''peer-update'')"
  by code_simp

text \<open>
  C6, amended. A \<^verbatim>\<open>register-device\<close> message handled for an id that is not in the registry
  raises no error and sends no error reply: the handler builds the device without checking
  the id, stores it in \<^verbatim>\<open>deviceInfo\<close> under that id and triggers the fan-out. The registry
  and the handles stay as they are; only the attachment to a registry entry and the
  \<^verbatim>\<open>device-registered\<close> confirmation are left out.
\<close>

theorem registration_unknown_stores_device:
  assumes "Map_get pid (connectedPeers st) = None"
  shows "\<exists>dev st'. handleDeviceRegistration pid deviceData now st
                      = (st', broadcastPeerUpdate st' now)
           \<and> st' = st\<lparr>deviceInfo := Map_set pid dev (deviceInfo st)\<rparr>
           \<and> dev_id dev = pid
           \<and> Map_get pid (deviceInfo st') = Some dev"
  using assms
  by (simp add: handleDeviceRegistration_def Let_def Map_get_def map_of_Map_set)

theorem registration_unknown_stores_device_witness:
  "Map_get ''ghost'' (connectedPeers two_peers) = None
   \<and> (\<exists>dev st'. handleDeviceRegistration ''ghost'' None ''t3'' two_peers
                      = (st', broadcastPeerUpdate st' ''t3'')
           \<and> st' = two_peers\<lparr>deviceInfo := Map_set ''ghost'' dev (deviceInfo two_peers)\<rparr>
           \<and> dev_id dev = ''ghost''
           \<and> Map_get ''ghost'' (deviceInfo st') = Some dev)"
proof -
  have h: "Map_get ''ghost'' (connectedPeers two_peers) = None"
    by code_simp
  from registration_unknown_stores_device [OF h, of None "''t3''"] h show ?thesis
    by blast
qed

section \<open>The registry over sequences of connection events\<close>








lemma handlers_keep_state:
  "fst (handleDiscoveryRequest pid now st) = st"
  "fst (sendPeerList pid now st) = st"
  by (auto simp: handleDiscoveryRequest_def sendPeerList_def Let_def split: option.splits)

lemma forward_keeps_state:
  "forwardSignalingMessage pid t data now st = Inr r \<Longrightarrow> fst r = st"
  by (auto simp: forwardSignalingMessage_def split: option.splits if_splits)

lemma message_cases:
  "on_message sock pid raw now st = (st, [(sock, error_msg ''Invalid message format'')])
   \<or> on_message sock pid raw now st = (st, [])
   \<or> (\<exists>payload. on_message sock pid raw now st = handleDeviceRegistration pid payload now st)
   \<or> on_message sock pid raw now st = handleDiscoveryRequest pid now st
   \<or> on_message sock pid raw now st = sendPeerList pid now st
   \<or> (\<exists>t data ty. get_prop data ''type'' = Some (JStr ty)
         \<and> ty \<in> {''offer'', ''answer'', ''ice-candidate''}
         \<and> forwardSignalingMessage pid t data now st = Inr (on_message sock pid raw now st))"
proof (cases raw)
  case Unparsable
  then show ?thesis
    by (simp add: on_message_def)
next
  case (Parsed data)
  show ?thesis
  proof (cases "handleSignalingMessage pid data now st")
    case (Inl e)
    with Parsed show ?thesis
      by (simp add: on_message_def)
  next
    case (Inr r)
    with Parsed have o: "on_message sock pid raw now st = r"
      by (simp add: on_message_def)
    from Inr show ?thesis
      unfolding o handleSignalingMessage_def Let_def
      by (auto split: if_splits)
  qed
qed






section \<open>Devices registered over HTTP\<close>

lemma sends_list_simps:
  "sends_list dev []"
  "sends_list dev (x # xs) = ((is_snapshot (snd x) \<longrightarrow> lists_device dev (snd x)) \<and> sends_list dev xs)"
  "sends_list dev (xs @ ys) = (sends_list dev xs \<and> sends_list dev ys)"
  by (auto simp: sends_list_def)

lemma stored_listed:
  assumes "Map_get d (deviceInfo st) = Some dev"
  shows "lists_device dev (peer_update_msg st now)"
proof -
  from assms have "dev \<in> set (map snd (deviceInfo st))"
    by (metis Map_get_def map_of_SomeD image_eqI list.set_map snd_conv)
  then show ?thesis
    by (auto simp: peer_update_msg_def lists_device_def Map_values_def)
qed

lemma broadcast_lists:
  assumes "Map_get d (deviceInfo st) = Some dev"
  shows "sends_list dev (broadcastPeerUpdate st now)"
  using stored_listed [OF assms, of now] by (auto simp: sends_list_def broadcastPeerUpdate_def)

lemma holds_broadcast: "holds_device st d dev \<Longrightarrow> sends_list dev (broadcastPeerUpdate st now)"
  unfolding holds_device_def using broadcast_lists by blast

lemma connection_holds:
  assumes "holds_device st d dev" and "pid \<noteq> d"
  shows "holds_device (fst (on_connection sock pid addr now st)) d dev"
    and "sends_list dev (snd (on_connection sock pid addr now st))"
proof -
  show h: "holds_device (fst (on_connection sock pid addr now st)) d dev"
    using assms by (simp add: holds_device_def on_connection_def Let_def Map_get_def map_of_Map_set)
  have "sends_list dev (broadcastPeerUpdate (fst (on_connection sock pid addr now st)) now)"
    using h by (rule holds_broadcast)
  then show "sends_list dev (snd (on_connection sock pid addr now st))"
    by (simp add: on_connection_def Let_def sends_list_simps is_snapshot_def)
qed

lemma close_holds:
  assumes "holds_device st d dev" and "pid \<noteq> d"
  shows "holds_device (fst (on_close pid now st)) d dev"
    and "sends_list dev (snd (on_close pid now st))"
proof -
  show h: "holds_device (fst (on_close pid now st)) d dev"
    using assms by (simp add: holds_device_def on_close_def Let_def Map_get_def map_of_Map_delete)
  have "sends_list dev (broadcastPeerUpdate (fst (on_close pid now st)) now)"
    using h by (rule holds_broadcast)
  then show "sends_list dev (snd (on_close pid now st))"
    by (simp add: on_close_def Let_def)
qed

lemma registration_holds:
  assumes "holds_device st d dev" and "pid \<noteq> d"
  shows "holds_device (fst (handleDeviceRegistration pid deviceData now st)) d dev"
    and "sends_list dev (snd (handleDeviceRegistration pid deviceData now st))"
proof -
  show h: "holds_device (fst (handleDeviceRegistration pid deviceData now st)) d dev"
    using assms
    by (auto simp: holds_device_def handleDeviceRegistration_def Let_def Map_get_def map_of_Map_set
        split: option.splits)
  have "sends_list dev (broadcastPeerUpdate (fst (handleDeviceRegistration pid deviceData now st)) now)"
    using h by (rule holds_broadcast)
  then show "sends_list dev (snd (handleDeviceRegistration pid deviceData now st))"
    by (auto simp: handleDeviceRegistration_def Let_def sends_list_simps is_snapshot_def
        split: option.splits)
qed

lemma discovery_lists:
  assumes "holds_device st d dev" and "Map_get pid (connectedPeers st) = Some p"
    and "readyState st (ws p) = OPEN"
  shows "\<exists>msg. handleDiscoveryRequest pid now st = (st, [(ws p, msg)])
           \<and> get_prop msg ''type'' = Some (JStr ''discovery-response'')
           \<and> lists_device dev msg"
proof -
  from assms(1) have "dev \<in> set (map snd (deviceInfo st))"
    unfolding holds_device_def
    by (metis Map_get_def map_of_SomeD image_eqI list.set_map snd_conv)
  moreover from assms(1,2) have "dev_id dev \<noteq> pid"
    unfolding holds_device_def by auto
  ultimately show ?thesis
    using assms(2,3)
    by (auto simp: handleDiscoveryRequest_def lists_device_def discoveredDevices_def Map_values_def)
qed

lemma discovery_holds:
  assumes "holds_device st d dev"
  shows "sends_list dev (snd (handleDiscoveryRequest pid now st))"
proof (cases "\<exists>p. Map_get pid (connectedPeers st) = Some p \<and> readyState st (ws p) = OPEN")
  case True
  then obtain p where "Map_get pid (connectedPeers st) = Some p" "readyState st (ws p) = OPEN"
    by blast
  from discovery_lists [OF assms this, of now] show ?thesis
    by (auto simp: sends_list_simps)
next
  case False
  then show ?thesis
    by (auto simp: handleDiscoveryRequest_def sends_list_simps split: option.splits)
qed

lemma forward_holds:
  assumes "get_prop data ''type'' = Some (JStr ty)" and "ty \<in> {''offer'', ''answer'', ''ice-candidate''}"
    and "forwardSignalingMessage pid t data now st = Inr r"
  shows "sends_list dev (snd r)"
proof -
  from assms(1) obtain fs where d: "data = JObj fs"
    by (cases data) auto
  have "map_of (forwarded pid data now) ''type'' = Some (JStr ty)"
    using assms(1) unfolding d by (simp add: forwarded_other)
  with assms(2) have "\<not> is_snapshot (JObj (forwarded pid data now))"
    by (auto simp: is_snapshot_def)
  with assms(3) show ?thesis
    by (auto simp: forwardSignalingMessage_def sends_list_simps is_snapshot_def error_msg_def
        split: option.splits if_splits)
qed

lemma peer_list_holds: "sends_list dev (snd (sendPeerList pid now st))"
  by (auto simp: sendPeerList_def Let_def sends_list_simps is_snapshot_def split: option.splits)

lemma message_holds:
  assumes "holds_device st d dev" and "pid \<noteq> d"
  shows "holds_device (fst (on_message sock pid raw now st)) d dev
     \<and> sends_list dev (snd (on_message sock pid raw now st))"
proof -
  have e: "sends_list dev [(sock, error_msg ''Invalid message format'')]"
    by (simp add: sends_list_simps is_snapshot_def error_msg_def)
  from message_cases [of sock pid raw now st] show ?thesis
    using assms(1) e registration_holds [OF assms] discovery_holds [OF assms(1), of pid now]
      peer_list_holds [of dev pid now st] handlers_keep_state [of pid now st]
      forward_holds [of _ _ pid _ now st "on_message sock pid raw now st" dev]
      forward_keeps_state [of pid _ _ now st "on_message sock pid raw now st"]
    by (auto simp: sends_list_simps)
qed

lemma post_holds:
  assumes "holds_device st d dev" and "newId \<noteq> d"
  shows "holds_device (fst (post_devices req_body newId now st)) d dev"
    and "sends_list dev (fst (snd (post_devices req_body newId now st)))"
proof -
  show h: "holds_device (fst (post_devices req_body newId now st)) d dev"
    using assms
    by (auto simp: holds_device_def post_devices_def Let_def Map_get_def map_of_Map_set
        split: option.splits)
  have "sends_list dev (broadcastPeerUpdate (fst (post_devices req_body newId now st)) now)"
    using h by (rule holds_broadcast)
  then show "sends_list dev (fst (snd (post_devices req_body newId now st)))"
    by (auto simp: post_devices_def Let_def sends_list_simps split: option.splits)
qed

lemma delete_holds:
  assumes "holds_device st d dev" and "deviceId \<noteq> d"
  shows "holds_device (fst (delete_device deviceId now st)) d dev"
    and "sends_list dev (fst (snd (delete_device deviceId now st)))"
proof -
  show h: "holds_device (fst (delete_device deviceId now st)) d dev"
    using assms
    by (auto simp: holds_device_def delete_device_def Let_def Map_get_def map_of_Map_delete
        split: option.splits)
  have "sends_list dev (broadcastPeerUpdate (fst (delete_device deviceId now st)) now)"
    using h by (rule holds_broadcast)
  then show "sends_list dev (fst (snd (delete_device deviceId now st)))"
    by (auto simp: delete_device_def Let_def sends_list_simps split: option.splits)
qed

lemma step_holds:
  assumes "holds_device st d dev" and "event_id e \<noteq> Some d"
  shows "holds_device (fst (step st e)) d dev \<and> sends_list dev (snd (step st e))"
proof (cases e)
  case (Library sock rs)
  with assms(1) show ?thesis
    by (simp add: holds_device_def sends_list_simps)
next
  case (Connection sock pid addr now)
  with assms show ?thesis
    by (simp add: connection_holds)
next
  case (Message sock pid raw now)
  with assms message_holds [of st d dev pid sock raw now] show ?thesis
    by simp
next
  case (Close sock pid now)
  with assms show ?thesis
    by (simp add: close_holds)
next
  case (HttpPostDevices req_body newId now)
  with assms post_holds [of st d dev newId req_body now] show ?thesis
    by (simp add: split_beta)
next
  case (HttpDeleteDevice deviceId now)
  with assms delete_holds [of st d dev deviceId now] show ?thesis
    by (simp add: split_beta)
qed

lemma run_holds:
  "holds_device st d dev \<Longrightarrow> \<forall>e \<in> set es. event_id e \<noteq> Some d \<Longrightarrow>
   holds_device (run st es) d dev \<and> sends_list dev (trace_sends st es)"
  by (induction es arbitrary: st) (simp_all add: step_holds sends_list_simps)

lemma post_creates:
  assumes "post_devices req_body d now st = (st1, out, r)" and "status r = 201"
    and "\<not> Map_has d (connectedPeers st)"
  shows "\<exists>dev. holds_device st1 d dev \<and> sends_list dev out
           \<and> st1 = st\<lparr>deviceInfo := Map_set d dev (deviceInfo st)\<rparr>
           \<and> out = broadcastPeerUpdate st1 now"
proof -
  from assms(1,2) obtain dev where
    s: "st1 = st\<lparr>deviceInfo := Map_set d dev (deviceInfo st)\<rparr>" "dev_id dev = d"
      "out = broadcastPeerUpdate st1 now"
    by (auto simp: post_devices_def Let_def split: option.splits if_splits)
  with assms(3) have "holds_device st1 d dev"
    by (simp add: holds_device_def Map_get_def Map_has_def map_of_Map_set)
  with s show ?thesis
    using holds_broadcast by blast
qed

lemma delete_removes:
  "\<not> Map_has d (deviceInfo (fst (delete_device d now st)))"
  by (simp add: delete_device_def Let_def Map_has_def map_of_Map_delete split: option.splits)

lemma fanout_reaches:
  "map fst (broadcastPeerUpdate st now)
     = map ws (filter (\<lambda>p. readyState st (ws p) = OPEN) (Map_values (connectedPeers st)))"
  "\<forall>x \<in> set (broadcastPeerUpdate st now). snd x = peer_update_msg st now"
  by (auto simp: broadcastPeerUpdate_def)

text \<open>
  C9, as stated, fails: the generated id is not fresh. A \<^verbatim>\<open>POST /api/devices\<close> and a
  connection that come in the same millisecond, with random texts that agree on the nine
  characters kept, get the same id; the device then has a participant connection of its id,
  and the disconnect of that connection deletes the device, without any HTTP delete.
\<close>

theorem http_device_persists_counterexample:
  "map event_id tv_clash = [Some clash_id, None, Some clash_id, None, Some clash_id]
   \<and> map fst (deviceInfo (run init_state (take 1 tv_clash))) = [clash_id]
   \<and> map fst (connectedPeers (run init_state (take 3 tv_clash))) = [clash_id]
   \<and> map fst (deviceInfo (run init_state (take 3 tv_clash))) = [clash_id]
   \<and> deviceInfo (run init_state tv_clash) = []"
  by code_simp

text \<open>
  C9, amended. A \<^verbatim>\<open>POST /api/devices\<close> that succeeds (status 201) with a generated id \<open>d\<close>
  that no registry entry has stores a device under \<open>d\<close>, leaves the registry as it is and
  makes one fan-out. After any later events that neither generate nor name the id \<open>d\<close>
  (connections and HTTP registrations with other generated ids, messages and disconnects of
  connections with other ids, HTTP deletes of other ids, changes of the states of handles)
  the device is still stored under \<open>d\<close> and the registry still has no entry of that id. Every
  \<^verbatim>\<open>peer-update\<close> and every \<^verbatim>\<open>discovery-response\<close> sent by the registration itself or by
  those events lists the device; a fan-out made in the state after them sends one
  \<^verbatim>\<open>peer-update\<close> that lists the device to each registry entry whose handle is open, in their
  order; and a \<^verbatim>\<open>discovery-request\<close> of any registry entry whose handle is open is answered
  on that handle by one \<^verbatim>\<open>discovery-response\<close> that lists the device.
  \<^verbatim>\<open>DELETE /api/devices/d\<close> removes it.
\<close>

theorem http_device_persists:
  assumes "post_devices req_body d now st = (st1, out, r)" and "status r = 201"
    and "\<not> Map_has d (connectedPeers st)"
    and "\<forall>e \<in> set es. event_id e \<noteq> Some d"
  shows "\<exists>dev. dev_id dev = d
      \<and> Map_get d (deviceInfo st1) = Some dev \<and> connectedPeers st1 = connectedPeers st
      \<and> out = broadcastPeerUpdate st1 now
      \<and> Map_get d (deviceInfo (run st1 es)) = Some dev
      \<and> Map_get d (connectedPeers (run st1 es)) = None
      \<and> (\<forall>x \<in> set (out @ trace_sends st1 es). is_snapshot (snd x) \<longrightarrow> lists_device dev (snd x))
      \<and> (\<forall>t. map fst (broadcastPeerUpdate (run st1 es) t)
                 = map ws (filter (\<lambda>p. readyState (run st1 es) (ws p) = OPEN)
                             (Map_values (connectedPeers (run st1 es))))
              \<and> (\<forall>x \<in> set (broadcastPeerUpdate (run st1 es) t).
                    snd x = peer_update_msg (run st1 es) t)
              \<and> get_prop (peer_update_msg (run st1 es) t) ''type'' = Some (JStr ''peer-update'')
              \<and> lists_device dev (peer_update_msg (run st1 es) t))
      \<and> (\<forall>pid p t. Map_get pid (connectedPeers (run st1 es)) = Some p
              \<and> readyState (run st1 es) (ws p) = OPEN
            \<longrightarrow> (\<exists>msg. handleDiscoveryRequest pid t (run st1 es) = (run st1 es, [(ws p, msg)])
                    \<and> get_prop msg ''type'' = Some (JStr ''discovery-response'')
                    \<and> lists_device dev msg))
      \<and> \<not> Map_has d (deviceInfo (fst (delete_device d now' (run st1 es))))"
proof -
  from post_creates [OF assms(1,2,3)] obtain dev where
    h: "holds_device st1 d dev" and o: "sends_list dev out"
    and s: "st1 = st\<lparr>deviceInfo := Map_set d dev (deviceInfo st)\<rparr>"
    and b: "out = broadcastPeerUpdate st1 now"
    by blast
  from run_holds [OF h assms(4)] have
    r: "holds_device (run st1 es) d dev" and t: "sends_list dev (trace_sends st1 es)"
    by simp_all
  from o t have a: "\<forall>x \<in> set (out @ trace_sends st1 es). is_snapshot (snd x) \<longrightarrow> lists_device dev (snd x)"
    by (auto simp: sends_list_def)
  from s have c: "connectedPeers st1 = connectedPeers st"
    by simp
  from r have g: "Map_get d (deviceInfo (run st1 es)) = Some dev"
    by (simp add: holds_device_def)
  have f: "\<forall>t. map fst (broadcastPeerUpdate (run st1 es) t)
                 = map ws (filter (\<lambda>p. readyState (run st1 es) (ws p) = OPEN)
                             (Map_values (connectedPeers (run st1 es))))
              \<and> (\<forall>x \<in> set (broadcastPeerUpdate (run st1 es) t).
                    snd x = peer_update_msg (run st1 es) t)
              \<and> get_prop (peer_update_msg (run st1 es) t) ''type'' = Some (JStr ''peer-update'')
              \<and> lists_device dev (peer_update_msg (run st1 es) t)"
    using fanout_reaches [of "run st1 es"] stored_listed [OF g]
    by (simp add: peer_update_msg_def)
  have q: "\<forall>pid p t. Map_get pid (connectedPeers (run st1 es)) = Some p
              \<and> readyState (run st1 es) (ws p) = OPEN
            \<longrightarrow> (\<exists>msg. handleDiscoveryRequest pid t (run st1 es) = (run st1 es, [(ws p, msg)])
                    \<and> get_prop msg ''type'' = Some (JStr ''discovery-response'')
                    \<and> lists_device dev msg)"
    using discovery_lists [OF r] by blast
  from h r a b c f q delete_removes [of d now' "run st1 es"] show ?thesis
    unfolding holds_device_def by blast
qed

theorem http_device_persists_witness:
  "status (snd (snd (post_devices tv_body ''tv'' ''t3'' two_peers))) = 201
   \<and> \<not> Map_has ''tv'' (connectedPeers two_peers)
   \<and> map event_id after_tv
       = [Some ''p2'', None, Some ''p1'', None, Some ''p3'', None, Some ''p2'']
   \<and> map fst (fst (snd (post_devices tv_body ''tv'' ''t3'' two_peers))) = [1, 2]
   \<and> Map_get ''tv'' (deviceInfo (run (fst (post_devices tv_body ''tv'' ''t3'' two_peers)) after_tv))
       = Some tv_device
   \<and> (\<exists>dev. dev_id dev = ''tv''
         \<and> Map_get ''tv'' (deviceInfo (run (fst (post_devices tv_body ''tv'' ''t3'' two_peers)) after_tv))
             = Some dev
         \<and> lists_device dev
             (peer_update_msg (run (fst (post_devices tv_body ''tv'' ''t3'' two_peers)) after_tv) ''t8''))
   \<and> map fst (broadcastPeerUpdate (run (fst (post_devices tv_body ''tv'' ''t3'' two_peers)) after_tv) ''t8'')
       = [3]
   \<and> (\<exists>x \<in> set (trace_sends (fst (post_devices tv_body ''tv'' ''t3'' two_peers)) after_tv).
         fst x = 2 \<and> get_prop (snd x) ''type'' = Some (JStr ''discovery-response'')
         \<and> lists_device tv_device (snd x))"
proof -
  have h1: "post_devices tv_body ''tv'' ''t3'' two_peers
              = (fst (post_devices tv_body ''tv'' ''t3'' two_peers),
                 fst (snd (post_devices tv_body ''tv'' ''t3'' two_peers)),
                 snd (snd (post_devices tv_body ''tv'' ''t3'' two_peers)))"
    by simp
  have h2: "status (snd (snd (post_devices tv_body ''tv'' ''t3'' two_peers))) = 201"
    by code_simp
  have h3: "\<not> Map_has ''tv'' (connectedPeers two_peers)"
    by code_simp
  have e: "map event_id after_tv
       = [Some ''p2'', None, Some ''p1'', None, Some ''p3'', None, Some ''p2'']"
    by code_simp
  have h4: "\<forall>e \<in> set after_tv. event_id e \<noteq> Some ''tv''"
    by code_simp
  have c: "Map_get ''tv'' (deviceInfo (run (fst (post_devices tv_body ''tv'' ''t3'' two_peers)) after_tv))
             = Some tv_device"
    by code_simp
  have o: "map fst (fst (snd (post_devices tv_body ''tv'' ''t3'' two_peers))) = [1, 2]"
    by code_simp
  have b: "map fst (broadcastPeerUpdate (run (fst (post_devices tv_body ''tv'' ''t3'' two_peers)) after_tv) ''t8'')
       = [3]"
    by code_simp
  have x: "\<exists>x \<in> set (trace_sends (fst (post_devices tv_body ''tv'' ''t3'' two_peers)) after_tv).
         fst x = 2 \<and> get_prop (snd x) ''type'' = Some (JStr ''discovery-response'')
         \<and> lists_device tv_device (snd x)"
    by code_simp
  from http_device_persists [OF h1 h2 h3 h4] h2 h3 e c o b x show ?thesis
    by auto
qed

section \<open>Heartbeats\<close>

text \<open>
  C5, as stated, fails on the server of \<^verbatim>\<open>server.js\<close>: its dispatcher has no case for
  \<^verbatim>\<open>heartbeat\<close>, so a heartbeat from \<open>p1\<close>, which has a registry entry, falls to the default
  branch: no reply is sent and the registry is as before.
\<close>

theorem heartbeat_counterexample:
  "Map_has ''p1'' (connectedPeers two_peers)
   \<and> snd (on_message 1 ''p1'' (Parsed heartbeat_msg) ''t3'' two_peers) = []
   \<and> connectedPeers (fst (on_message 1 ''p1'' (Parsed heartbeat_msg) ''t3'' two_peers))
       = connectedPeers two_peers"
  by code_simp

text \<open>
  C5, amended: the server with heartbeats. \<^verbatim>\<open>handleHeartbeat\<close> looks the registry up under
  the \<^verbatim>\<open>deviceId\<close> property of the issuing handle. If there is an entry under that key, its
  \<^verbatim>\<open>lastHeartbeat\<close> becomes the time of the heartbeat, every other entry and every other part
  of the state stays as it is, and the only send is a \<^verbatim>\<open>heartbeat-ack\<close> with a timestamp on
  the issuing handle. If there is none (the handle never registered, or its entry is gone),
  nothing is sent and the state is unchanged.
\<close>

theorem heartbeat_ack_or_ignore:
  "(\<forall>d. Map_get (deviceId_of st sock) (connectedDevices st) = Some d \<longrightarrow>
      (\<exists>st'. handleHeartbeat sock now st
               = (st', [(sock, JObj [(''type'', JStr ''heartbeat-ack''),
                                     (''timestamp'', JNum (int_string now))])])
          \<and> Map_get (deviceId_of st sock) (connectedDevices st') = Some (d\<lparr>lastHeartbeat := now\<rparr>)
          \<and> (\<forall>k. k \<noteq> deviceId_of st sock
                \<longrightarrow> Map_get k (connectedDevices st') = Map_get k (connectedDevices st))
          \<and> Map_keys (connectedDevices st') = Map_keys (connectedDevices st)
          \<and> st'\<lparr>connectedDevices := connectedDevices st\<rparr> = st))
   \<and> (Map_get (deviceId_of st sock) (connectedDevices st) = None
        \<longrightarrow> handleHeartbeat sock now st = (st, []))"
  by (auto simp: handleHeartbeat_def Let_def Map_get_def Map_keys_def map_of_Map_set
      map_fst_Map_set_same)

theorem heartbeat_ack_or_ignore_witness:
  "Map_get (deviceId_of laptop_registered 1) (connectedDevices laptop_registered)
     = Some (snd (laptop_entry 1 1000 1000))
   \<and> snd (handleHeartbeat 1 2000 laptop_registered)
       = [(1, JObj [(''type'', JStr ''heartbeat-ack''), (''timestamp'', JNum ''2000'')])]
   \<and> Map_get (KPrim (JStr ''laptop'')) (connectedDevices (fst (handleHeartbeat 1 2000 laptop_registered)))
       = Some (snd (laptop_entry 1 1000 2000))
   \<and> Map_get (deviceId_of laptop_registered 2) (connectedDevices laptop_registered) = None
   \<and> handleHeartbeat 2 2000 laptop_registered = (laptop_registered, [])"
proof -
  have k: "deviceId_of laptop_registered 1 = KPrim (JStr ''laptop'')"
    by code_simp
  have i: "int_string 2000 = ''2000''"
    by code_simp
  have a: "Map_get (deviceId_of laptop_registered 1) (connectedDevices laptop_registered)
     = Some (snd (laptop_entry 1 1000 1000))"
    by code_simp
  have u: "snd (laptop_entry 1 1000 1000)\<lparr>lastHeartbeat := 2000\<rparr> = snd (laptop_entry 1 1000 2000)"
    by (simp add: laptop_entry_def)
  have b: "Map_get (deviceId_of laptop_registered 2) (connectedDevices laptop_registered) = None"
    by code_simp
  from heartbeat_ack_or_ignore [of laptop_registered 1 2000] a k i u
    heartbeat_ack_or_ignore [of laptop_registered 2 2000] b
  show ?thesis
    by auto
qed

section \<open>The stale-device sweep\<close>

lemma heartbeat_fields:
  "deviceId_of (fst (handleHeartbeat sock t st)) = deviceId_of st"
  "map fst (connectedDevices (fst (handleHeartbeat sock t st))) = map fst (connectedDevices st)"
  by (auto simp: handleHeartbeat_def Let_def Map_get_def map_fst_Map_set_same split: option.splits)

lemma heartbeats_keys:
  "map fst (connectedDevices (heartbeats sock ts st)) = map fst (connectedDevices st)"
  unfolding heartbeats_def
  by (induction ts arbitrary: st) (simp_all add: heartbeat_fields)

lemma heartbeats_last:
  assumes "Map_get (deviceId_of st sock) (connectedDevices st) = Some d" and "ts \<noteq> []"
  shows "Map_get (deviceId_of st sock) (connectedDevices (heartbeats sock ts st))
           = Some (d\<lparr>lastHeartbeat := last ts\<rparr>)"
  using assms
proof (induction ts arbitrary: st d)
  case Nil
  then show ?case by simp
next
  case (Cons t ts)
  define st' where "st' = fst (handleHeartbeat sock t st)"
  have k: "deviceId_of st' sock = deviceId_of st sock"
    by (simp add: st'_def heartbeat_fields)
  have g: "Map_get (deviceId_of st' sock) (connectedDevices st') = Some (d\<lparr>lastHeartbeat := t\<rparr>)"
    using Cons.prems(1)
    by (simp add: st'_def handleHeartbeat_def Let_def Map_get_def map_of_Map_set)
  have u: "heartbeats sock (t # ts) st = heartbeats sock ts st'"
    by (simp add: heartbeats_def st'_def)
  show ?case
  proof (cases "ts = []")
    case True
    with g k show ?thesis
      unfolding u by (simp add: heartbeats_def)
  next
    case False
    from Cons.IH [OF g False] k False show ?thesis
      unfolding u by simp
  qed
qed

lemma evict_fields:
  "connectedDevices (state_of (evict st k)) = Map_delete k (connectedDevices st)"
  "clients (state_of (evict st k)) = clients st"
  "deviceId_of (state_of (evict st k)) = deviceId_of st"
  by (simp_all add: evict_def Let_def split: option.splits)

lemma evict_returns: "key_String k \<noteq> None \<Longrightarrow> \<exists>s. evict st k = Returned s"
  by (auto simp: evict_def Let_def)

lemma evict_all_returns:
  "\<forall>k \<in> set ks. key_String k \<noteq> None \<Longrightarrow>
   evict_all st ks = Returned (foldl (\<lambda>s k. state_of (evict s k)) st ks)"
proof (induction ks arbitrary: st)
  case Nil
  then show ?case by simp
next
  case (Cons k ks)
  from Cons.prems evict_returns [of k st] obtain s where e: "evict st k = Returned s"
    by auto
  from Cons.prems have "evict_all s ks = Returned (foldl (\<lambda>s k. state_of (evict s k)) s ks)"
    by (intro Cons.IH) simp
  with e show ?case
    by simp
qed

lemma evict_all_fields:
  "connectedDevices (foldl (\<lambda>s k. state_of (evict s k)) st ks)
     = filter (\<lambda>e. fst e \<notin> set ks) (connectedDevices st)"
  "clients (foldl (\<lambda>s k. state_of (evict s k)) st ks) = clients st"
  "deviceId_of (foldl (\<lambda>s k. state_of (evict s k)) st ks) = deviceId_of st"
  by (induction ks arbitrary: st) (auto simp: evict_fields Map_delete_def intro: filter_cong)

lemma evict_not_reopened:
  "readyState2 st s \<noteq> OPEN \<Longrightarrow> readyState2 (state_of (evict st k)) s \<noteq> OPEN"
  by (cases "readyState2 st s") (auto simp: evict_def Let_def split: option.splits)

lemma evict_all_not_reopened:
  "readyState2 st s \<noteq> OPEN \<Longrightarrow>
   readyState2 (foldl (\<lambda>s k. state_of (evict s k)) st ks) s \<noteq> OPEN"
  by (induction ks arbitrary: st) (simp_all add: evict_not_reopened)

lemma evict_closes:
  "Map_get k (connectedDevices st) = Some d \<Longrightarrow>
   readyState2 (state_of (evict st k)) (d_ws d) \<noteq> OPEN"
  by (cases "readyState2 st (d_ws d)") (simp_all add: evict_def Let_def)

lemma evict_all_closes:
  "Map_get k (connectedDevices st) = Some d \<Longrightarrow> k \<in> set ks \<Longrightarrow>
   readyState2 (foldl (\<lambda>s k. state_of (evict s k)) st ks) (d_ws d) \<noteq> OPEN"
proof (induction ks arbitrary: st)
  case Nil
  then show ?case by simp
next
  case (Cons k' ks)
  show ?case
  proof (cases "k' = k")
    case True
    with Cons.prems(1) show ?thesis
      by (simp add: evict_closes evict_all_not_reopened)
  next
    case False
    with Cons.prems
    have "Map_get k (connectedDevices (state_of (evict st k'))) = Some d" "k \<in> set ks"
      by (simp_all add: evict_fields Map_get_def map_of_Map_delete)
    then show ?thesis
      by (simp add: Cons.IH)
  qed
qed

lemma stale_keys:
  assumes "distinct (map fst m)" and "e \<in> set m"
  shows "fst e \<in> set (map fst (filter P m)) \<longleftrightarrow> P e"
proof
  assume "fst e \<in> set (map fst (filter P m))"
  then obtain e' where e': "e' \<in> set m" "P e'" "fst e' = fst e"
    by auto
  with assms have "e' = e"
    by (metis eq_key_imp_eq_value prod.collapse)
  with e' show "P e" by simp
next
  assume "P e"
  with assms(2) show "fst e \<in> set (map fst (filter P m))"
    by auto
qed

lemma sweep_returns:
  assumes "\<forall>k \<in> set (Map_keys (connectedDevices st)). key_String k \<noteq> None"
  shows "sweep now st
           = Returned (foldl (\<lambda>s k. state_of (evict s k)) st (staleDevices now st),
               if \<exists>e \<in> set (connectedDevices st). now - lastHeartbeat (snd e) > DEVICE_TIMEOUT
               then [broadcastDeviceList
                       (foldl (\<lambda>s k. state_of (evict s k)) st (staleDevices now st)) now]
               else [])"
proof -
  from assms have "\<forall>k \<in> set (staleDevices now st). key_String k \<noteq> None"
    by (auto simp: staleDevices_def Map_keys_def)
  then have "evict_all st (staleDevices now st)
               = Returned (foldl (\<lambda>s k. state_of (evict s k)) st (staleDevices now st))"
    by (rule evict_all_returns)
  moreover have "(length (staleDevices now st) > 0)
      = (\<exists>e \<in> set (connectedDevices st). now - lastHeartbeat (snd e) > DEVICE_TIMEOUT)"
    by (auto simp: staleDevices_def filter_empty_conv)
  ultimately show ?thesis
    by (simp add: sweep_def Let_def)
qed

lemma swept_remaining:
  assumes "distinct (Map_keys (connectedDevices st))"
  shows "connectedDevices (foldl (\<lambda>s k. state_of (evict s k)) st (staleDevices now st))
           = filter (\<lambda>e. \<not> now - lastHeartbeat (snd e) > DEVICE_TIMEOUT) (connectedDevices st)"
proof -
  have d: "distinct (map fst (connectedDevices st))"
    using assms by (simp add: Map_keys_def)
  show ?thesis
    unfolding evict_all_fields staleDevices_def
  proof (rule filter_cong [OF refl])
    fix e assume "e \<in> set (connectedDevices st)"
    from stale_keys [OF d this, of "\<lambda>e. now - lastHeartbeat (snd e) > DEVICE_TIMEOUT"]
    show "(fst e \<notin> set (map fst (filter (\<lambda>e. now - lastHeartbeat (snd e) > DEVICE_TIMEOUT)
                                      (connectedDevices st))))
            = (\<not> now - lastHeartbeat (snd e) > DEVICE_TIMEOUT)"
      by simp
  qed
qed

lemma swept_closes:
  assumes "Map_get k (connectedDevices st) = Some v" and "now - lastHeartbeat v > DEVICE_TIMEOUT"
  shows "readyState2 (foldl (\<lambda>s k. state_of (evict s k)) st (staleDevices now st)) (d_ws v) \<noteq> OPEN"
    and "k \<notin> set (Map_keys (connectedDevices
                   (foldl (\<lambda>s k. state_of (evict s k)) st (staleDevices now st))))"
    and "Map_get k (connectedDevices
                   (foldl (\<lambda>s k. state_of (evict s k)) st (staleDevices now st))) = None"
proof -
  from assms(1) have m: "(k, v) \<in> set (connectedDevices st)"
    by (simp add: Map_get_def map_of_SomeD)
  with assms(2) have ks: "k \<in> set (staleDevices now st)"
    unfolding staleDevices_def by force
  show "readyState2 (foldl (\<lambda>s k. state_of (evict s k)) st (staleDevices now st)) (d_ws v) \<noteq> OPEN"
    using assms(1) ks by (rule evict_all_closes)
  show 2: "k \<notin> set (Map_keys (connectedDevices
                   (foldl (\<lambda>s k. state_of (evict s k)) st (staleDevices now st))))"
    unfolding evict_all_fields Map_keys_def using ks by auto
  then show "Map_get k (connectedDevices
                   (foldl (\<lambda>s k. state_of (evict s k)) st (staleDevices now st))) = None"
    by (simp add: Map_get_def Map_keys_def map_of_eq_None_iff)
qed

lemma broadcast2_open:
  "map fst (broadcastDeviceList st now) = filter (\<lambda>c. readyState2 st c = OPEN) (clients st)"
  "\<forall>x \<in> set (broadcastDeviceList st now). snd x = device_list_msg st now"
  by (auto simp: broadcastDeviceList_def comp_def)

lemma Map_delete_absent: "k \<notin> set (Map_keys m) \<Longrightarrow> Map_delete k m = m"
  by (induction m) (auto simp: Map_delete_def Map_keys_def)

lemma cleanup_after_eviction:
  assumes "key_truthy (deviceId_of st sock)" and "key_String (deviceId_of st sock) \<noteq> None"
    and "deviceId_of st sock \<notin> set (Map_keys (connectedDevices st))"
  shows "\<exists>st2. cleanupDevice sock t (closed_by_library sock st)
                  = Returned (st2, [broadcastDeviceList st2 t])
           \<and> connectedDevices st2 = connectedDevices st
           \<and> clients st2 = filter (\<lambda>c. c \<noteq> sock) (clients st)"
  using assms
  by (auto simp: cleanupDevice_def cleanupPeer_def closed_by_library_def Let_def Map_delete_absent)

text \<open>
  C4, as stated, fails in two ways. The sweep makes its one fan-out, and the \<^verbatim>\<open>close\<close>
  event of each handle it closed then runs \<^verbatim>\<open>cleanupDevice\<close>, which makes a fan-out of its
  own: the eviction of \<open>laptop\<close> alone leads to two fan-outs to \<open>phone\<close>. And a registration
  whose \<^verbatim>\<open>deviceId\<close> is \<^verbatim>\<open>{"toString": 1}\<close> leaves an entry under a key that no log line can
  convert: when it is stale, the sweep deletes it and throws, so that \<open>laptop\<close>, silent for as
  long and next in the batch, stays in the registry with its handle open, and no fan-out is
  made.
\<close>

theorem sweep_counterexample:
  "staleDevices 40000 phone_beating = [KPrim (JStr ''laptop'')]
   \<and> length (snd (state_of (sweep 40000 phone_beating))) = 1
   \<and> connectedDevices (fst (state_of (sweep 40000 phone_beating))) = connectedDevices laptop_evicted
   \<and> readyState2 (fst (state_of (sweep 40000 phone_beating))) 1 = readyState2 laptop_evicted 1
   \<and> length (snd (state_of (cleanupDevice 1 41000 laptop_closed))) = 1
   \<and> map fst (concat (snd (state_of (cleanupDevice 1 41000 laptop_closed)))) = [2]
   \<and> connectedDevices (fst (on_register 1 (register_as odd_id) 1000 two_clients)) = [odd_entry]
   \<and> connectedDevices (fst (on_register 2 (register_as (JStr ''laptop'')) 1000
         (fst (on_register 1 (register_as odd_id) 1000 two_clients))))
       = connectedDevices odd_registered
   \<and> staleDevices 40000 odd_registered = [KRef 0 odd_id, KPrim (JStr ''laptop'')]
   \<and> threw (sweep 40000 odd_registered)
   \<and> connectedDevices (fst (state_of (sweep 40000 odd_registered))) = [laptop_entry 2 1000 1000]
   \<and> readyState2 (fst (state_of (sweep 40000 odd_registered))) 2 = OPEN
   \<and> snd (state_of (sweep 40000 odd_registered)) = []"
  by code_simp

text \<open>
  C4, amended. One tick of the sweep, on a registry with distinct keys that can all be
  converted to strings, returns, and: the entries that remain are exactly those whose silence
  \<open>now - lastHeartbeat\<close> does not exceed the timeout, in their order; for every entry whose
  silence exceeds it, \<^verbatim>\<open>close\<close> has been called on its handle, which is then not open, and its
  key is neither in the registry nor in the device list of the next snapshot. The sweep
  itself makes exactly one fan-out if some entry was evicted and none otherwise; the fan-out
  goes to the clients whose handle is open and carries the device list of the state after the
  whole sweep. The \<^verbatim>\<open>close\<close> event of the handle of an evicted entry that carries the
  entry's key as its \<^verbatim>\<open>deviceId\<close> then makes one more fan-out, and changes the registry no
  further when it comes right after the sweep. However many heartbeats \<open>hs\<close> a connection
  sent before, if the last of them is older than the timeout at the tick, its handle is
  closed, its entry is evicted and the sweep makes its one fan-out.
\<close>

theorem sweep_evicts_silent:
  assumes "distinct (Map_keys (connectedDevices st))"
    and "\<forall>k \<in> set (Map_keys (connectedDevices st)). key_String k \<noteq> None"
  shows "\<exists>st'. sweep now st
            = Returned (st', if \<exists>e \<in> set (connectedDevices st).
                                  now - lastHeartbeat (snd e) > DEVICE_TIMEOUT
                             then [broadcastDeviceList st' now] else [])
     \<and> connectedDevices st'
         = filter (\<lambda>e. \<not> now - lastHeartbeat (snd e) > DEVICE_TIMEOUT) (connectedDevices st)
     \<and> (\<forall>k d. Map_get k (connectedDevices st) = Some d \<and> now - lastHeartbeat d > DEVICE_TIMEOUT
            \<longrightarrow> readyState2 st' (d_ws d) \<noteq> OPEN
              \<and> Map_get k (connectedDevices st') = None
              \<and> k \<notin> set (Map_keys (connectedDevices st')))
     \<and> map fst (broadcastDeviceList st' now) = filter (\<lambda>c. readyState2 st' c = OPEN) (clients st')
     \<and> (\<forall>x \<in> set (broadcastDeviceList st' now). snd x = device_list_msg st' now)
     \<and> clients st' = clients st
     \<and> (\<forall>k d t. Map_get k (connectedDevices st) = Some d \<and> now - lastHeartbeat d > DEVICE_TIMEOUT
            \<and> deviceId_of st (d_ws d) = k \<and> key_truthy k
          \<longrightarrow> (\<exists>st2. cleanupDevice (d_ws d) t (closed_by_library (d_ws d) st')
                         = Returned (st2, [broadcastDeviceList st2 t])
                  \<and> connectedDevices st2 = connectedDevices st'))
     \<and> (\<forall>sock d hs. Map_get (deviceId_of st sock) (connectedDevices st) = Some d
            \<and> hs \<noteq> [] \<and> now - last hs > DEVICE_TIMEOUT
          \<longrightarrow> (\<exists>st2. sweep now (heartbeats sock hs st) = Returned (st2, [broadcastDeviceList st2 now])
                  \<and> readyState2 st2 (d_ws d) \<noteq> OPEN
                  \<and> deviceId_of st sock \<notin> set (Map_keys (connectedDevices st2))))"
proof -
  define st' where "st' = foldl (\<lambda>s k. state_of (evict s k)) st (staleDevices now st)"
  have r: "sweep now st
            = Returned (st', if \<exists>e \<in> set (connectedDevices st).
                                  now - lastHeartbeat (snd e) > DEVICE_TIMEOUT
                             then [broadcastDeviceList st' now] else [])"
    unfolding st'_def using assms(2) by (rule sweep_returns)
  have a: "connectedDevices st'
         = filter (\<lambda>e. \<not> now - lastHeartbeat (snd e) > DEVICE_TIMEOUT) (connectedDevices st)"
    unfolding st'_def using assms(1) by (rule swept_remaining)
  have b: "\<forall>k d. Map_get k (connectedDevices st) = Some d \<and> now - lastHeartbeat d > DEVICE_TIMEOUT
            \<longrightarrow> readyState2 st' (d_ws d) \<noteq> OPEN
              \<and> Map_get k (connectedDevices st') = None
              \<and> k \<notin> set (Map_keys (connectedDevices st'))"
    unfolding st'_def using swept_closes by blast
  have c: "clients st' = clients st" and i: "deviceId_of st' = deviceId_of st"
    by (simp_all add: st'_def evict_all_fields)
  have u: "\<exists>st2. cleanupDevice (d_ws d) t (closed_by_library (d_ws d) st')
                         = Returned (st2, [broadcastDeviceList st2 t])
                  \<and> connectedDevices st2 = connectedDevices st'"
    if g: "Map_get k (connectedDevices st) = Some d" and s: "now - lastHeartbeat d > DEVICE_TIMEOUT"
      and k: "deviceId_of st (d_ws d) = k" and y: "key_truthy k" for k d t
  proof -
    from g have "k \<in> set (Map_keys (connectedDevices st))"
      by (force simp: Map_get_def Map_keys_def dest: map_of_SomeD)
    with assms(2) have "key_String k \<noteq> None"
      by blast
    moreover from b g s have "k \<notin> set (Map_keys (connectedDevices st'))"
      by blast
    ultimately show ?thesis
      using cleanup_after_eviction [of st' "d_ws d" t] k y i by auto
  qed
  have h: "\<exists>st2. sweep now (heartbeats sock hs st) = Returned (st2, [broadcastDeviceList st2 now])
                  \<and> readyState2 st2 (d_ws d) \<noteq> OPEN
                  \<and> deviceId_of st sock \<notin> set (Map_keys (connectedDevices st2))"
    if g: "Map_get (deviceId_of st sock) (connectedDevices st) = Some d"
      and n: "hs \<noteq> []" and l: "now - last hs > DEVICE_TIMEOUT" for sock d hs
  proof -
    define sh where "sh = heartbeats sock hs st"
    define d' where "d' = d\<lparr>lastHeartbeat := last hs\<rparr>"
    define s2 where "s2 = foldl (\<lambda>s k. state_of (evict s k)) sh (staleDevices now sh)"
    from heartbeats_last [OF g n] have
      g': "Map_get (deviceId_of st sock) (connectedDevices sh) = Some d'"
      by (simp add: sh_def d'_def)
    have sd: "now - lastHeartbeat d' > DEVICE_TIMEOUT"
      using l by (simp add: d'_def)
    have w: "d_ws d' = d_ws d"
      by (simp add: d'_def)
    from g' have "(deviceId_of st sock, d') \<in> set (connectedDevices sh)"
      by (simp add: Map_get_def map_of_SomeD)
    with sd have ex: "\<exists>e \<in> set (connectedDevices sh). now - lastHeartbeat (snd e) > DEVICE_TIMEOUT"
      by force
    have "Map_keys (connectedDevices sh) = Map_keys (connectedDevices st)"
      by (simp add: sh_def Map_keys_def heartbeats_keys)
    with assms(2) have "\<forall>k \<in> set (Map_keys (connectedDevices sh)). key_String k \<noteq> None"
      by simp
    from sweep_returns [OF this, of now] ex
    have "sweep now sh = Returned (s2, [broadcastDeviceList s2 now])"
      by (simp add: s2_def)
    with swept_closes(1,2) [OF g' sd] w show ?thesis
      unfolding sh_def s2_def by simp
  qed
  from r a b c u h broadcast2_open [of st' now] show ?thesis
    by blast
qed

theorem sweep_evicts_silent_witness:
  "connectedDevices (heartbeats 2 [20000, 30000] both_registered) = connectedDevices phone_beating
   \<and> distinct (Map_keys (connectedDevices phone_beating))
   \<and> map key_String (Map_keys (connectedDevices phone_beating)) = [Some ''laptop'', Some ''phone'']
   \<and> map (lastHeartbeat \<circ> snd) (connectedDevices phone_beating) = [1000, 30000]
   \<and> (\<exists>st'. sweep 40000 phone_beating = Returned (st', [broadcastDeviceList st' 40000])
         \<and> connectedDevices st'
             = filter (\<lambda>e. \<not> 40000 - lastHeartbeat (snd e) > DEVICE_TIMEOUT)
                 (connectedDevices phone_beating))
   \<and> Map_keys (connectedDevices (fst (state_of (sweep 40000 phone_beating)))) = [KPrim (JStr ''phone'')]
   \<and> readyState2 (fst (state_of (sweep 40000 phone_beating))) 1 = CLOSING
   \<and> length (snd (state_of (sweep 40000 phone_beating))) = 1
   \<and> map fst (concat (snd (state_of (sweep 40000 phone_beating)))) = [2]"
proof -
  have h: "distinct (Map_keys (connectedDevices phone_beating))"
    by code_simp
  have k: "map key_String (Map_keys (connectedDevices phone_beating)) = [Some ''laptop'', Some ''phone'']"
    by code_simp
  have h2: "\<forall>k \<in> set (Map_keys (connectedDevices phone_beating)). key_String k \<noteq> None"
    by code_simp
  have e: "\<exists>e \<in> set (connectedDevices phone_beating). 40000 - lastHeartbeat (snd e) > DEVICE_TIMEOUT"
    by code_simp
  have "connectedDevices (heartbeats 2 [20000, 30000] both_registered) = connectedDevices phone_beating"
    and "map (lastHeartbeat \<circ> snd) (connectedDevices phone_beating) = [1000, 30000]"
    and "Map_keys (connectedDevices (fst (state_of (sweep 40000 phone_beating)))) = [KPrim (JStr ''phone'')]"
    and "readyState2 (fst (state_of (sweep 40000 phone_beating))) 1 = CLOSING"
    and "length (snd (state_of (sweep 40000 phone_beating))) = 1"
    and "map fst (concat (snd (state_of (sweep 40000 phone_beating)))) = [2]"
    by code_simp+
  with h k e sweep_evicts_silent [OF h h2, of 40000] show ?thesis
    by auto
qed

section \<open>Registration in the server with heartbeats\<close>










section \<open>The discovery store\<close>

lemma prune_all_distinct:
  "distinct (map fst m) \<Longrightarrow> distinct (map fst (state_of (prune_all m ks)))"
  by (induction ks arbitrary: m) (simp_all add: distinct_Map_delete)

lemma prune_all_keeps:
  "k \<notin> set ks \<Longrightarrow> map_of (state_of (prune_all m ks)) k = map_of m k"
  by (induction ks arbitrary: m) (simp_all add: map_of_Map_delete)

lemma sweep_discovery_store:
  "discoveryClients (state_of (sweep_discovery t st))
     = state_of (prune_all (discoveryClients st) (staleClients t st))"
  by (simp add: sweep_discovery_def split: outcome.splits)

lemma distinct_sweep_discovery:
  "distinct (map fst (discoveryClients st)) \<Longrightarrow>
   distinct (map fst (discoveryClients (state_of (sweep_discovery t st))))"
  by (simp add: sweep_discovery_store prune_all_distinct)

lemma distinct_sweeps_discovery:
  "distinct (map fst (discoveryClients st)) \<Longrightarrow>
   distinct (map fst (discoveryClients (sweeps_discovery ts st)))"
  unfolding sweeps_discovery_def
  by (induction ts arbitrary: st) (simp_all add: distinct_sweep_discovery)

lemma sweep_discovery_keeps:
  assumes "distinct (map fst (discoveryClients st))"
    and "map_of (discoveryClients st) k = Some r" and "t - lastSeen r \<le> DEVICE_TIMEOUT"
  shows "map_of (discoveryClients (state_of (sweep_discovery t st))) k = Some r"
proof -
  have "k \<notin> set (staleClients t st)"
  proof
    assume "k \<in> set (staleClients t st)"
    then obtain e where e: "e \<in> set (discoveryClients st)" "fst e = k"
      "t - lastSeen (snd e) > DEVICE_TIMEOUT"
      by (auto simp: staleClients_def)
    from assms(2) have "(k, r) \<in> set (discoveryClients st)"
      by (rule map_of_SomeD)
    with assms(1) e(1,2) have "snd e = r"
      by (metis eq_key_imp_eq_value prod.collapse)
    with e(3) assms(3) show False
      by simp
  qed
  then show ?thesis
    using assms(2) by (simp add: sweep_discovery_store prune_all_keeps)
qed

lemma sweeps_discovery_keep:
  assumes "distinct (map fst (discoveryClients st))"
    and "map_of (discoveryClients st) k = Some r" and "\<forall>t \<in> set ts. t - lastSeen r \<le> DEVICE_TIMEOUT"
  shows "map_of (discoveryClients (sweeps_discovery ts st)) k = Some r"
  using assms
proof (induction ts arbitrary: st)
  case Nil
  then show ?case
    by (simp add: sweeps_discovery_def)
next
  case (Cons t ts)
  have "distinct (map fst (discoveryClients (state_of (sweep_discovery t st))))"
    using Cons.prems(1) by (rule distinct_sweep_discovery)
  moreover have "map_of (discoveryClients (state_of (sweep_discovery t st))) k = Some r"
    using Cons.prems by (intro sweep_discovery_keeps) simp_all
  moreover have "\<forall>t \<in> set ts. t - lastSeen r \<le> DEVICE_TIMEOUT"
    using Cons.prems(3) by simp
  ultimately
  have "map_of (discoveryClients (sweeps_discovery ts (state_of (sweep_discovery t st)))) k = Some r"
    by (rule Cons.IH)
  then show ?case
    by (simp add: sweeps_discovery_def)
qed

lemma announce_upserts:
  assumes "get_prop data ''type'' = Some (JStr ''device-announce'')"
    and "get_prop data ''device'' = Some dv" and "get_prop dv ''id'' = Some i"
    and "\<not> is_ref (Some i)" and "template (get_prop dv ''name'') \<noteq> None"
  shows "discoveryClients (fst (on_datagram (Parsed data) ri t st))
           = Map_set (KPrim i)
               \<lparr>announced = filter (\<lambda>f. fst f \<noteq> ''lastSeen'' \<and> fst f \<noteq> ''address'') (spread dv),
                lastSeen = t, address = rinfo_address ri\<rparr> (discoveryClients st)"
proof -
  from assms(1) have d: "data \<noteq> JNull"
    by auto
  from assms(3) obtain fs where v: "dv = JObj fs"
    by (cases dv) auto
  from assms(4) have k: "to_key (Some i) (allocated st) = KPrim i"
    by (cases i) auto
  show ?thesis
    using assms(1,2,3,5) d k unfolding v
    by (auto simp: on_datagram_def handleDiscoveryMessage_def)
qed

lemma announce_dropped:
  assumes "get_prop data ''type'' = Some (JStr ''device-announce'')"
    and "get_prop data ''device'' = Some dv" and "template (get_prop dv ''name'') = None"
  shows "on_datagram (Parsed data) ri t st = (st, [])"
  using assms
  by (auto simp: on_datagram_def handleDiscoveryMessage_def split: json.splits)

lemma announce_distinct:
  "distinct (map fst (discoveryClients st)) \<Longrightarrow>
   distinct (map fst (discoveryClients (fst (on_datagram raw ri t st))))"
  by (auto simp: on_datagram_def handleDiscoveryMessage_def distinct_Map_set
      split: parse_result.splits option.splits json.splits)

text \<open>
  C7, as stated, fails in two ways. The store is a \<^verbatim>\<open>Map\<close>, which tells arrays and objects
  apart by identity: two announcements whose id is the empty object leave two records. And
  the log line of an announcement converts the announced \<^verbatim>\<open>name\<close> to a string before the
  store is written: when the second announcement of \<open>tablet\<close> carries the name
  \<^verbatim>\<open>{"toString": 1}\<close>, the line throws, the datagram is dropped, and the record keeps the
  address and the \<^verbatim>\<open>lastSeen\<close> of the first.
\<close>

theorem announce_counterexample:
  "Map_keys (discoveryClients (fst (on_datagram (Parsed (announce_as (JObj []) (JStr ''Tablet'')))
       from_b 5000
       (fst (on_datagram (Parsed (announce_as (JObj []) (JStr ''Tablet''))) from_a 1000 two_clients)))))
     = [KRef 0 (JObj []), KRef 1 (JObj [])]
   \<and> discoveryClients announced_once
     = [(KPrim (JStr ''tablet''),
         \<lparr>announced = [(''id'', JStr ''tablet''), (''name'', JStr ''Tablet'')],
          lastSeen = 1000, address = ''192.168.1.20''\<rparr>)]
   \<and> discoveryClients (fst (on_datagram (Parsed (announce_as (JStr ''tablet'') odd_id))
       from_b 5000 announced_once))
     = [(KPrim (JStr ''tablet''),
         \<lparr>announced = [(''id'', JStr ''tablet''), (''name'', JStr ''Tablet'')],
          lastSeen = 1000, address = ''192.168.1.20''\<rparr>)]"
  by code_simp

text \<open>
  C7, amended. Two \<^verbatim>\<open>device-announce\<close> datagrams carry the same id \<open>i\<close>, a string, number,
  boolean or \<^verbatim>\<open>null\<close>, and come from the addresses of \<open>ri1\<close> and \<open>ri2\<close> at the times \<open>t1\<close>
  and \<open>t2\<close>, with any runs of the discovery sweep between them. When the \<^verbatim>\<open>name\<close> of the
  second can be converted to a string, the store afterwards has exactly one record under the
  key \<open>i\<close>; its address is the source address of the second datagram and its \<^verbatim>\<open>lastSeen\<close> is
  \<open>t2\<close>; and when the name of the first could be converted too and every sweep between them
  ran within the timeout after \<open>t1\<close>, the keys of the store and their order are as before the
  second datagram: the record was updated, not added. When the name of the second cannot be
  converted, the second datagram is dropped and changes nothing. The keys of the store are
  distinct in either case.
\<close>

theorem announce_twice_one_record:
  assumes "get_prop data1 ''type'' = Some (JStr ''device-announce'')"
    and "get_prop data1 ''device'' = Some dv1" and "get_prop dv1 ''id'' = Some i"
    and "get_prop data2 ''type'' = Some (JStr ''device-announce'')"
    and "get_prop data2 ''device'' = Some dv2" and "get_prop dv2 ''id'' = Some i"
    and "\<not> is_ref (Some i)"
    and "distinct (Map_keys (discoveryClients st))"
    and "st1 = sweeps_discovery ts (fst (on_datagram (Parsed data1) ri1 t1 st))"
    and "st2 = fst (on_datagram (Parsed data2) ri2 t2 st1)"
  shows "(template (get_prop dv2 ''name'') \<noteq> None \<longrightarrow>
            length (filter (\<lambda>e. fst e = KPrim i) (discoveryClients st2)) = 1
            \<and> (\<exists>r. Map_get (KPrim i) (discoveryClients st2) = Some r
                   \<and> address r = rinfo_address ri2 \<and> lastSeen r = t2)
            \<and> (template (get_prop dv1 ''name'') \<noteq> None \<and> (\<forall>t \<in> set ts. t - t1 \<le> DEVICE_TIMEOUT)
                  \<longrightarrow> Map_keys (discoveryClients st2) = Map_keys (discoveryClients st1)))
     \<and> (template (get_prop dv2 ''name'') = None
          \<longrightarrow> on_datagram (Parsed data2) ri2 t2 st1 = (st1, []) \<and> st2 = st1)
     \<and> distinct (Map_keys (discoveryClients st2))"
proof -
  have d0: "distinct (map fst (discoveryClients (fst (on_datagram (Parsed data1) ri1 t1 st))))"
    using assms(8) unfolding Map_keys_def by (rule announce_distinct)
  then have d1: "distinct (map fst (discoveryClients st1))"
    unfolding assms(9) by (rule distinct_sweeps_discovery)
  then have d2: "distinct (Map_keys (discoveryClients st2))"
    unfolding assms(10) Map_keys_def by (rule announce_distinct)
  have n: "on_datagram (Parsed data2) ri2 t2 st1 = (st1, []) \<and> st2 = st1"
    if "template (get_prop dv2 ''name'') = None"
    unfolding assms(10) using announce_dropped [OF assms(4,5) that] by simp
  have y: "length (filter (\<lambda>e. fst e = KPrim i) (discoveryClients st2)) = 1
            \<and> (\<exists>r. Map_get (KPrim i) (discoveryClients st2) = Some r
                   \<and> address r = rinfo_address ri2 \<and> lastSeen r = t2)
            \<and> (template (get_prop dv1 ''name'') \<noteq> None \<and> (\<forall>t \<in> set ts. t - t1 \<le> DEVICE_TIMEOUT)
                  \<longrightarrow> Map_keys (discoveryClients st2) = Map_keys (discoveryClients st1))"
    if c2: "template (get_prop dv2 ''name'') \<noteq> None"
  proof -
    note a2 = announce_upserts [OF assms(4,5,6,7) c2, of ri2 t2 st1, folded assms(10)]
    have c: "length (filter (\<lambda>e. fst e = KPrim i) (discoveryClients st2)) = 1"
      unfolding a2 using d1 by (rule count_Map_set)
    have g: "\<exists>r. Map_get (KPrim i) (discoveryClients st2) = Some r
              \<and> address r = rinfo_address ri2 \<and> lastSeen r = t2"
      unfolding a2 by (simp add: Map_get_def map_of_Map_set)
    have k: "Map_keys (discoveryClients st2) = Map_keys (discoveryClients st1)"
      if c1: "template (get_prop dv1 ''name'') \<noteq> None"
        and w: "\<forall>t \<in> set ts. t - t1 \<le> DEVICE_TIMEOUT"
    proof -
      note a1 = announce_upserts [OF assms(1,2,3,7) c1, of ri1 t1 st]
      define r where "r = \<lparr>announced = filter (\<lambda>f. fst f \<noteq> ''lastSeen'' \<and> fst f \<noteq> ''address'') (spread dv1),
                  lastSeen = t1, address = rinfo_address ri1\<rparr>"
      have "map_of (discoveryClients (fst (on_datagram (Parsed data1) ri1 t1 st))) (KPrim i) = Some r"
        unfolding a1 r_def by (simp add: map_of_Map_set)
      moreover from w have "\<forall>t \<in> set ts. t - lastSeen r \<le> DEVICE_TIMEOUT"
        by (simp add: r_def)
      ultimately have "map_of (discoveryClients st1) (KPrim i) = Some r"
        unfolding assms(9) using d0 by (simp add: sweeps_discovery_keep)
      then show ?thesis
        unfolding a2 Map_keys_def by (auto simp: map_fst_Map_set_same)
    qed
    from c g k show ?thesis
      by blast
  qed
  from n y d2 show ?thesis
    by blast
qed

theorem announce_twice_one_record_witness:
  "distinct (Map_keys (discoveryClients two_clients))
   \<and> \<not> is_ref (Some (JStr ''tablet''))
   \<and> template (Some (JStr ''Tablet'')) = Some ''Tablet''
   \<and> length (filter (\<lambda>e. fst e = KPrim (JStr ''tablet'')) (discoveryClients announced_twice)) = 1
   \<and> discoveryClients announced_twice
       = [(KPrim (JStr ''tablet''),
           \<lparr>announced = [(''id'', JStr ''tablet''), (''name'', JStr ''Tablet'')],
            lastSeen = 5000, address = ''192.168.1.77''\<rparr>)]"
proof -
  have h1: "get_prop (announce ''tablet'') ''type'' = Some (JStr ''device-announce'')"
    and h2: "get_prop (announce ''tablet'') ''device''
               = Some (JObj [(''id'', JStr ''tablet''), (''name'', JStr ''Tablet''),
                             (''address'', JStr ''0.0.0.0'')])"
    by (simp_all add: announce_def announce_as_def)
  have h3: "get_prop (JObj [(''id'', JStr ''tablet''), (''name'', JStr ''Tablet''),
                            (''address'', JStr ''0.0.0.0'')]) ''id'' = Some (JStr ''tablet'')"
    by simp
  have n: "template (get_prop (JObj [(''id'', JStr ''tablet''), (''name'', JStr ''Tablet''),
                            (''address'', JStr ''0.0.0.0'')]) ''name'') \<noteq> None"
    by simp
  have h7: "\<not> is_ref (Some (JStr ''tablet''))"
    by simp
  have h8: "distinct (Map_keys (discoveryClients two_clients))"
    by code_simp
  have c: "discoveryClients announced_twice
       = [(KPrim (JStr ''tablet''),
           \<lparr>announced = [(''id'', JStr ''tablet''), (''name'', JStr ''Tablet'')],
            lastSeen = 5000, address = ''192.168.1.77''\<rparr>)]"
    by code_simp
  from announce_twice_one_record [OF h1 h2 h3 h1 h2 h3 h7 h8 announced_once_def announced_twice_def]
    n h7 h8 c
  show ?thesis
    by auto
qed

end
